theory Spec2Isabelle
  imports Complex_Main
begin

section \<open>Numbers of the source language\<close>

text \<open>
  Every numeric field of \<^verbatim>\<open>App.tsx\<close> has the type \<^verbatim>\<open>number\<close>. A value of that type
  is a finite number, one of the two infinities, or not-a-number. Finite values are
  modelled by the real number they denote: the arithmetic below is exact on finite
  operands (rounding to the nearest representable value and overflow are abstracted
  away) and follows IEEE 754 wherever an operand or the result is not finite, in
  particular on division by zero. Equality of numbers in the statements below is
  identity of values, so not-a-number is equal to itself. The model has one zero. A negative zero could be
  told from it only by dividing by it, and the only divisor the program computes is
  \<^verbatim>\<open>Math.pow(1 + discountRate / 100, t)\<close>, which is a negative zero for no input of
  this model.
\<close>

datatype number = Fin real | PInf | NInf | NaN

fun num_neg :: "number \<Rightarrow> number" where
  "num_neg (Fin a) = Fin (- a)"
| "num_neg PInf = NInf"
| "num_neg NInf = PInf"
| "num_neg NaN = NaN"

fun num_add :: "number \<Rightarrow> number \<Rightarrow> number" where
  "num_add NaN y = NaN"
| "num_add x NaN = NaN"
| "num_add (Fin a) (Fin b) = Fin (a + b)"
| "num_add PInf NInf = NaN"
| "num_add NInf PInf = NaN"
| "num_add PInf y = PInf"
| "num_add NInf y = NInf"
| "num_add (Fin a) y = y"

definition num_sub :: "number \<Rightarrow> number \<Rightarrow> number" where
  "num_sub x y = num_add x (num_neg y)"

fun num_mul :: "number \<Rightarrow> number \<Rightarrow> number" where
  "num_mul NaN y = NaN"
| "num_mul x NaN = NaN"
| "num_mul (Fin a) (Fin b) = Fin (a * b)"
| "num_mul (Fin a) y = (if a = 0 then NaN else if 0 < a then y else num_neg y)"
| "num_mul x (Fin b) = (if b = 0 then NaN else if 0 < b then x else num_neg x)"
| "num_mul PInf y = y"
| "num_mul NInf y = num_neg y"

fun num_div :: "number \<Rightarrow> number \<Rightarrow> number" where
  "num_div NaN y = NaN"
| "num_div x NaN = NaN"
| "num_div (Fin a) (Fin b) =
     (if b \<noteq> 0 then Fin (a / b)
      else if a = 0 then NaN else if 0 < a then PInf else NInf)"
| "num_div (Fin a) y = Fin 0"
| "num_div x (Fin b) = (if 0 \<le> b then x else num_neg x)"
| "num_div x y = NaN"

text \<open>\<^verbatim>\<open>Math.pow(x, t)\<close> for an exponent that is a loop counter: a natural number.\<close>

fun num_pow :: "number \<Rightarrow> nat \<Rightarrow> number" where
  "num_pow x 0 = Fin 1"
| "num_pow (Fin a) t = Fin (a ^ t)"
| "num_pow PInf t = PInf"
| "num_pow NInf t = (if odd t then NInf else PInf)"
| "num_pow NaN t = NaN"

text \<open>The operand of \<^verbatim>\<open>x || 0\<close> is falsy when it is zero or not-a-number.\<close>

fun falsy :: "number \<Rightarrow> bool" where
  "falsy (Fin a) = (a = 0)"
| "falsy NaN = True"
| "falsy x = False"

text \<open>The idiom \<^verbatim>\<open>x || 0\<close> on a number.\<close>

definition orZero :: "number \<Rightarrow> number" where
  "orZero x = (if falsy x then Fin 0 else x)"

definition finite_num :: "number \<Rightarrow> bool" where
  "finite_num x = (case x of Fin a \<Rightarrow> True | _ \<Rightarrow> False)"

section \<open>Text produced from numbers\<close>

text \<open>
  Strings are byte sequences, as the source file and the exported file hold them.
  A natural number prints as its decimal digits without leading zeros.
\<close>

definition digit :: "nat \<Rightarrow> char" where
  "digit n = ''0123456789'' ! n"

fun digits :: "nat \<Rightarrow> string" where
  "digits n = (if n < 10 then [digit n] else digits (n div 10) @ [digit (n mod 10)])"

declare digits.simps [simp del]

text \<open>
  \<^verbatim>\<open>Number::toString\<close> of the platform. The text of the three values that are not
  finite is fixed by the language. For a finite value it is the shortest decimal that
  reads back as the same binary floating-point value, which an exact model of the
  finite values cannot compute: that part is the parameter \<open>toStr\<close>.
\<close>

fun ToString :: "(real \<Rightarrow> string) \<Rightarrow> number \<Rightarrow> string" where
  "ToString toStr (Fin a) = toStr a"
| "ToString toStr PInf = ''Infinity''"
| "ToString toStr NInf = ''-Infinity''"
| "ToString toStr NaN = ''NaN''"

text \<open>
  \<^verbatim>\<open>Number.prototype.toFixed\<close> with \<open>f\<close> fraction digits (the program passes the
  literals 0, 2 and 4, so the range check on \<open>f\<close> never fails). For a finite
  \<open>x\<close> below \<open>10^21\<close> in magnitude the language takes the integer \<open>n\<close> with
  \<open>n / 10^f\<close> nearest to \<open>\<bar>x\<bar>\<close>, the larger one on a tie, prints its digits padded
  with zeros to \<open>f + 1\<close> places and puts the point before the last \<open>f\<close> of them.
\<close>

definition fixed_digits :: "nat \<Rightarrow> nat \<Rightarrow> string" where
  "fixed_digits n f =
     (let m = digits n;
          k = length m;
          m = (if k \<le> f then replicate (f + 1 - k) (CHR ''0'') @ m else m);
          k = length m
      in if f \<noteq> 0 then take (k - f) m @ ''.'' @ drop (k - f) m else m)"

definition toFixed :: "(real \<Rightarrow> string) \<Rightarrow> number \<Rightarrow> nat \<Rightarrow> string" where
  "toFixed toStr x f =
     (case x of
        Fin a \<Rightarrow>
          (let s = (if a < 0 then ''-'' else '''');
               a = (if a < 0 then - a else a)
           in if 10 ^ 21 \<le> a then s @ toStr a
              else s @ fixed_digits (nat \<lfloor>a * 10 ^ f + 1 / 2\<rfloor>) f)
      | _ \<Rightarrow> ToString toStr x)"

section \<open>The component state\<close>

record CLVData =
  margin :: number
  repeatProbabilities :: "number list"
  acquisitionCost :: number
  discountRate :: number
  timeHorizon :: int

text \<open>
  One element of \<^verbatim>\<open>yearlyBreakdown\<close>. Its field \<^verbatim>\<open>margin\<close> is \<open>rowMargin\<close>
  here, the name \<open>margin\<close> being the parameter record's.
\<close>

record YearRow =
  year :: nat
  rowMargin :: number
  repeatProb :: number
  adjustedMargin :: number
  discountFactor :: number
  presentValue :: number
  calculation :: string

text \<open>The four state variables of \<^verbatim>\<open>App\<close>.\<close>

record AppState =
  data :: CLVData
  clv :: number
  yearlyBreakdown :: "YearRow list"
  totalPV :: number

definition initialData :: CLVData where
  "initialData =
     \<lparr>margin = Fin 60,
      repeatProbabilities = [Fin 100, Fin 90, Fin 85, Fin 85, Fin 60, Fin 30],
      acquisitionCost = Fin 6,
      discountRate = Fin 10,
      timeHorizon = 6\<rparr>"

definition initialState :: AppState where
  "initialState = \<lparr>data = initialData, clv = Fin 0, yearlyBreakdown = [], totalPV = Fin 0\<rparr>"

section \<open>calculateCLV\<close>

text \<open>
  The function that the specification calls \<open>compute\<close>. It reads \<^verbatim>\<open>data\<close> and
  sets the three other state variables.
\<close>

text \<open>
  \<^verbatim>\<open>data.repeatProbabilities[t] || 0\<close>: an index past the end reads
  \<^verbatim>\<open>undefined\<close>, which is falsy.
\<close>

definition readProb :: "number list \<Rightarrow> nat \<Rightarrow> number" where
  "readProb ps t =
     (if t < length ps then orZero (ps ! t) else Fin 0)"

text \<open>
  The body of the loop for the counter \<open>t\<close>: the object pushed onto
  \<^verbatim>\<open>breakdown\<close>. The three symbols of the calculation text that are not ASCII are
  written as the bytes of their UTF-8 encoding.
\<close>

definition times_sign :: string where
  "times_sign = [CHR 0xC3, CHR 0x97]"

definition div_sign :: string where
  "div_sign = [CHR 0xC3, CHR 0xB7]"

definition approx_sign :: string where
  "approx_sign = [CHR 0xE2, CHR 0x89, CHR 0x88]"

definition yearRow :: "(real \<Rightarrow> string) \<Rightarrow> CLVData \<Rightarrow> nat \<Rightarrow> YearRow" where
  "yearRow toStr d t =
     (let repeatProb = readProb (repeatProbabilities d) t;
          adjustedMargin = num_mul (margin d) (num_div repeatProb (Fin 100));
          discountFactor = num_pow (num_add (Fin 1) (num_div (discountRate d) (Fin 100))) t;
          presentValue = num_div adjustedMargin discountFactor;
          calculation =
            (if t = 0 then
               ''$'' @ ToString toStr (margin d) @ '' '' @ times_sign @ '' ''
                 @ ToString toStr (num_div repeatProb (Fin 100)) @ '' = $''
                 @ toFixed toStr adjustedMargin 0
             else
               ''$'' @ toFixed toStr adjustedMargin 0 @ '' '' @ div_sign @ '' (1+''
                 @ ToString toStr (num_div (discountRate d) (Fin 100)) @ '')^'' @ digits t
                 @ '' '' @ approx_sign @ '' $'' @ toFixed toStr presentValue 0)
      in \<lparr>year = t, rowMargin = margin d, repeatProb = repeatProb,
          adjustedMargin = adjustedMargin, discountFactor = discountFactor,
          presentValue = presentValue, calculation = calculation\<rparr>)"

text \<open>
  The \<^verbatim>\<open>for\<close> loop, with its two accumulators \<^verbatim>\<open>totalPresentValue\<close> and
  \<^verbatim>\<open>breakdown\<close>.
\<close>

function calcLoop ::
  "(real \<Rightarrow> string) \<Rightarrow> CLVData \<Rightarrow> nat \<Rightarrow> number \<Rightarrow> YearRow list \<Rightarrow> number \<times> YearRow list"
where
  "calcLoop toStr d t totalPresentValue breakdown =
     (if int t < timeHorizon d then
        (let r = yearRow toStr d t
         in calcLoop toStr d (Suc t)
              (num_add totalPresentValue (presentValue r)) (breakdown @ [r]))
      else (totalPresentValue, breakdown))"
  by pat_completeness auto
termination
  by (relation "measure (\<lambda>(toStr, d, t, tot, b). nat (timeHorizon d - int t))") auto

declare calcLoop.simps [simp del]

definition calculateCLV :: "(real \<Rightarrow> string) \<Rightarrow> AppState \<Rightarrow> AppState" where
  "calculateCLV toStr st =
     (let (totalPresentValue, breakdown) = calcLoop toStr (data st) 0 (Fin 0) [];
          finalCLV = num_sub totalPresentValue (acquisitionCost (data st))
      in st\<lparr>clv := finalCLV, totalPV := totalPresentValue, yearlyBreakdown := breakdown\<rparr>)"

section \<open>Changing the horizon\<close>

text \<open>
  The specification calls \<open>addYear\<close> \<open>growHorizon\<close> and \<open>removeYear\<close>
  \<open>shrinkHorizon\<close>. Each sets \<^verbatim>\<open>data\<close> or does nothing;
  \<^verbatim>\<open>slice(0, -1)\<close> is the array without its last element, and the empty array
  for the empty array.
\<close>

definition addYear :: "AppState \<Rightarrow> AppState" where
  "addYear st =
     (let d = data st
      in if timeHorizon d < 10 then
           st\<lparr>data := d\<lparr>timeHorizon := timeHorizon d + 1,
                         repeatProbabilities := repeatProbabilities d @ [Fin 20]\<rparr>\<rparr>
         else st)"

definition removeYear :: "AppState \<Rightarrow> AppState" where
  "removeYear st =
     (let d = data st
      in if timeHorizon d > 1 then
           st\<lparr>data := d\<lparr>timeHorizon := timeHorizon d - 1,
                         repeatProbabilities := butlast (repeatProbabilities d)\<rparr>\<rparr>
         else st)"

section \<open>exportResults\<close>

text \<open>\<^verbatim>\<open>Array.prototype.join\<close> on strings.\<close>

fun join :: "string \<Rightarrow> string list \<Rightarrow> string" where
  "join sep [] = []"
| "join sep [x] = x"
| "join sep (x # xs) = x @ sep @ join sep xs"

definition csvHeader :: "string list" where
  "csvHeader =
     [''Year'', ''Margin ($)'', ''Repeat Prob (%)'', ''Adjusted Margin ($)'',
      ''Discount Factor'', ''Present Value ($)'', ''Calculation'']"

definition yearLabel :: "nat \<Rightarrow> string" where
  "yearLabel y = (if y = 0 then ''Acquisition'' else ''Year '' @ digits y)"

definition csvDataRow :: "(real \<Rightarrow> string) \<Rightarrow> YearRow \<Rightarrow> string list" where
  "csvDataRow toStr row =
     [yearLabel (year row),
      toFixed toStr (rowMargin row) 2,
      toFixed toStr (repeatProb row) 0,
      toFixed toStr (adjustedMargin row) 2,
      toFixed toStr (discountFactor row) 4,
      toFixed toStr (presentValue row) 2,
      calculation row]"

text \<open>The array of rows that \<^verbatim>\<open>exportResults\<close> builds before joining.\<close>

definition csvTable :: "(real \<Rightarrow> string) \<Rightarrow> AppState \<Rightarrow> string list list" where
  "csvTable toStr st =
     [csvHeader]
     @ map (csvDataRow toStr) (yearlyBreakdown st)
     @ [['''', '''', '''', '''', '''', ''Total PV:'', toFixed toStr (totalPV st) 2],
        ['''', '''', '''', '''', '''', ''Acquisition Cost:'',
           toFixed toStr (num_neg (acquisitionCost (data st))) 2],
        ['''', '''', '''', '''', '''', ''Final CLV:'', toFixed toStr (clv st) 2]]"

text \<open>
  The text \<^verbatim>\<open>csvContent\<close> handed to the download; the download itself is an
  effect on the document and is not modelled.
\<close>

definition csvContent :: "(real \<Rightarrow> string) \<Rightarrow> AppState \<Rightarrow> string" where
  "csvContent toStr st = join [CHR 0x0A] (map (join '','') (csvTable toStr st))"

section \<open>The input handlers\<close>

text \<open>
  \<^verbatim>\<open>updateRepeatProbability\<close> copies the array and assigns at \<open>index\<close>: an
  index below the length replaces the entry there, the index equal to the length
  appends the value. An index beyond the length would make an array with holes
  between the old entries and the new one, which a list of numbers does not hold: the
  result is \<open>None\<close> there, and \<open>reachable_update_defined\<close> below shows that no
  state of the component gets there.
\<close>

definition updateRepeatProbability :: "AppState \<Rightarrow> nat \<Rightarrow> number \<Rightarrow> AppState option" where
  "updateRepeatProbability st index v =
     (let newProbs = repeatProbabilities (data st)
      in if index < length newProbs then
           Some (st\<lparr>data := (data st)\<lparr>repeatProbabilities := newProbs[index := v]\<rparr>\<rparr>)
         else if index = length newProbs then
           Some (st\<lparr>data := (data st)\<lparr>repeatProbabilities := newProbs @ [v]\<rparr>\<rparr>)
         else None)"

text \<open>
  What the user can do. An input event carries \<^verbatim>\<open>parseFloat(e.target.value)\<close>,
  which may be any number, not-a-number included; every handler applies
  \<^verbatim>\<open>|| 0\<close> to it. A probability field exists for each index below
  \<^verbatim>\<open>data.timeHorizon\<close> and for no other.
\<close>

datatype event =
    MarginInput number
  | AcquisitionCostInput number
  | DiscountRateInput number
  | ProbabilityInput nat number
  | RemoveYearClick
  | AddYearClick

fun handle :: "event \<Rightarrow> AppState \<Rightarrow> AppState option" where
  "handle (MarginInput x) st = Some (st\<lparr>data := (data st)\<lparr>margin := orZero x\<rparr>\<rparr>)"
| "handle (AcquisitionCostInput x) st =
     Some (st\<lparr>data := (data st)\<lparr>acquisitionCost := orZero x\<rparr>\<rparr>)"
| "handle (DiscountRateInput x) st =
     Some (st\<lparr>data := (data st)\<lparr>discountRate := orZero x\<rparr>\<rparr>)"
| "handle (ProbabilityInput index x) st =
     (if int index < timeHorizon (data st)
      then updateRepeatProbability st index (orZero x) else None)"
| "handle RemoveYearClick st = Some (removeYear st)"
| "handle AddYearClick st = Some (addYear st)"

text \<open>
  The effect on \<^verbatim>\<open>[data]\<close> runs \<^verbatim>\<open>calculateCLV\<close> after the first render and after
  every change of \<^verbatim>\<open>data\<close>.
\<close>

definition dispatch :: "(real \<Rightarrow> string) \<Rightarrow> event \<Rightarrow> AppState \<Rightarrow> AppState option" where
  "dispatch toStr e st = map_option (calculateCLV toStr) (handle e st)"

inductive reachable :: "(real \<Rightarrow> string) \<Rightarrow> AppState \<Rightarrow> bool" for toStr where
  mounted: "reachable toStr (calculateCLV toStr initialState)"
| event: "reachable toStr st \<Longrightarrow> dispatch toStr e st = Some st' \<Longrightarrow> reachable toStr st'"

section \<open>Notions used in the statements\<close>

text \<open>A number is a finite value within \<open>tol\<close> of \<open>c\<close>.\<close>

definition near :: "number \<Rightarrow> real \<Rightarrow> real \<Rightarrow> bool" where
  "near x c tol = (case x of Fin a \<Rightarrow> \<bar>a - c\<bar> \<le> tol | _ \<Rightarrow> False)"

definition is_digit :: "char \<Rightarrow> bool" where
  "is_digit c = (c \<in> set ''0123456789'')"

text \<open>The natural number that a string of decimal digits denotes.\<close>

definition digits_val :: "string \<Rightarrow> nat" where
  "digits_val s = foldl (\<lambda>acc c. 10 * acc + (of_char c - 48)) 0 s"

text \<open>
  What it is for a text to be a number formatted to \<open>f\<close> decimals, in the words of
  the specification rather than those of the code: after an optional minus sign, one
  or more digits, and for \<open>f > 0\<close> a point and exactly \<open>f\<close> digits.
\<close>

fun strip_sign :: "string \<Rightarrow> string" where
  "strip_sign [] = []"
| "strip_sign (c # r) = (if c = CHR ''-'' then r else c # r)"

definition fixed_format :: "nat \<Rightarrow> string \<Rightarrow> bool" where
  "fixed_format f s =
     (let b = strip_sign s
      in if f = 0 then b \<noteq> [] \<and> list_all is_digit b
         else f + 1 < length b \<and>
              list_all is_digit (take (length b - (f + 1)) b) \<and>
              b ! (length b - (f + 1)) = CHR ''.'' \<and>
              list_all is_digit (drop (length b - f) b))"

text \<open>The natural number that the digits of such a text denote, the point left out.\<close>

definition fixed_value :: "string \<Rightarrow> nat" where
  "fixed_value s = digits_val (filter is_digit s)"

text \<open>
  \<open>shows_num toStr x f s\<close>: the text \<open>s\<close> shows the number \<open>x\<close> to \<open>f\<close> decimals
  where that is possible, and as the platform names it otherwise. A finite \<open>x\<close> of
  magnitude below \<open>10^21\<close> is formatted to \<open>f\<close> decimals, with a minus sign exactly
  when it is negative and with the digits of the multiple of \<open>10^-f\<close> nearest to
  its magnitude (the larger one on a tie). A larger finite \<open>x\<close> is shown by the
  platform's text of its magnitude, and a value that is not finite by its name.
\<close>

definition shows_num :: "(real \<Rightarrow> string) \<Rightarrow> number \<Rightarrow> nat \<Rightarrow> string \<Rightarrow> bool" where
  "shows_num toStr x f s =
     (case x of
        Fin a \<Rightarrow>
          if \<bar>a\<bar> < 10 ^ 21 then
            fixed_format f s \<and> (take 1 s = ''-'') = (a < 0) \<and>
            fixed_value s = nat \<lfloor>\<bar>a\<bar> * 10 ^ f + 1 / 2\<rfloor>
          else s = (if a < 0 then ''-'' else '''') @ toStr \<bar>a\<bar>
      | PInf \<Rightarrow> s = ''Infinity''
      | NInf \<Rightarrow> s = ''-Infinity''
      | NaN \<Rightarrow> s = ''NaN'')"

section \<open>Rounded arithmetic\<close>

text \<open>
  The arithmetic of the program is binary floating point: each operation returns the
  exact result rounded. \<open>rounds e x y\<close> says that \<open>y\<close> is \<open>x\<close> with a relative
  error of at most \<open>e\<close>. \<open>fl_presentValue e m p r t v\<close> says that \<open>v\<close> is a present
  value that the loop body can compute for the finite parameters \<open>m\<close>, \<open>p\<close>,
  \<open>r\<close> and the period \<open>t\<close> when each of its six operations (two divisions by
  100, the product, the sum, the power, the quotient) rounds within \<open>e\<close>, and
  \<open>fl_sum\<close> is the running total with a rounding after each addition.
\<close>

definition rounds :: "real \<Rightarrow> real \<Rightarrow> real \<Rightarrow> bool" where
  "rounds e x y = (\<bar>y - x\<bar> \<le> e * \<bar>x\<bar>)"

definition fl_presentValue :: "real \<Rightarrow> real \<Rightarrow> real \<Rightarrow> real \<Rightarrow> nat \<Rightarrow> real \<Rightarrow> bool" where
  "fl_presentValue e m p r t v =
     (\<exists>q a r1 b d.
        rounds e (p / 100) q \<and> rounds e (m * q) a \<and>
        rounds e (r / 100) r1 \<and> rounds e (1 + r1) b \<and> rounds e (b ^ t) d \<and>
        rounds e (a / d) v)"

fun fl_sum :: "real \<Rightarrow> real \<Rightarrow> real list \<Rightarrow> real \<Rightarrow> bool" where
  "fl_sum e acc [] s = (s = acc)"
| "fl_sum e acc (v # vs) s = (\<exists>acc'. rounds e (acc + v) acc' \<and> fl_sum e acc' vs s)"

section \<open>Arithmetic facts\<close>

lemma num_div_one: "num_div x (Fin 1) = x"
  by (cases x) simp_all

lemma orZero_id: "x \<noteq> NaN \<Longrightarrow> orZero x = x"
  by (cases x) (simp_all add: orZero_def)

lemma orZero_not_NaN: "orZero x \<noteq> NaN"
  by (cases x) (simp_all add: orZero_def)

text \<open>
  An entry that is not-a-number reads as 0, as a missing one does. The input handlers
  never store one (\<open>reachable_invariant\<close> below).
\<close>

lemma readProb_NaN: "t < length ps \<Longrightarrow> ps ! t = NaN \<Longrightarrow> readProb ps t = Fin 0"
  by (simp add: readProb_def orZero_def)

lemma readProb_number:
  "NaN \<notin> set ps \<Longrightarrow> readProb ps t = (if t < length ps then ps ! t else Fin 0)"
  by (auto simp: readProb_def intro!: orZero_id) (metis nth_mem)

section \<open>The initial parameters\<close>

lemma initial_data [simp]:
  "timeHorizon (data initialState) = 6"
  "repeatProbabilities (data initialState) = [Fin 100, Fin 90, Fin 85, Fin 85, Fin 60, Fin 30]"
  "margin (data initialState) = Fin 60"
  "discountRate (data initialState) = Fin 10"
  "acquisitionCost (data initialState) = Fin 6"
  by (simp_all add: initialState_def initialData_def)

section \<open>The loop of calculateCLV\<close>

text \<open>
  Started at period \<open>t\<close> with the accumulators \<open>tot\<close> and \<open>bd\<close>, the loop appends
  the rows of the periods from \<open>t\<close> up to the horizon to \<open>bd\<close> and adds their present
  values to \<open>tot\<close> from the left, in that order.
\<close>

lemma calcLoop_eq:
  "calcLoop toStr d t tot bd =
     (foldl num_add tot (map presentValue (map (yearRow toStr d) [t..<nat (timeHorizon d)])),
      bd @ map (yearRow toStr d) [t..<nat (timeHorizon d)])"
proof (induction toStr d t tot bd rule: calcLoop.induct)
  case (1 toStr d t tot bd)
  show ?case
  proof (cases "int t < timeHorizon d")
    case True
    then have lt: "t < nat (timeHorizon d)" by linarith
    show ?thesis
      using True "1.IH"[OF True refl]
      by (subst calcLoop.simps) (simp add: upt_conv_Cons[OF lt] Let_def)
  next
    case False
    then have "\<not> t < nat (timeHorizon d)" by linarith
    with False show ?thesis
      by (subst calcLoop.simps) simp
  qed
qed

lemma calculateCLV_rows:
  "yearlyBreakdown (calculateCLV toStr st) =
     map (yearRow toStr (data st)) [0..<nat (timeHorizon (data st))]"
  by (simp add: calculateCLV_def calcLoop_eq)

lemma calculateCLV_totalPV:
  "totalPV (calculateCLV toStr st) =
     foldl num_add (Fin 0) (map presentValue (yearlyBreakdown (calculateCLV toStr st)))"
  by (simp add: calculateCLV_def calcLoop_eq)

lemma calculateCLV_clv:
  "clv (calculateCLV toStr st) =
     num_sub (totalPV (calculateCLV toStr st)) (acquisitionCost (data st))"
  by (simp add: calculateCLV_def calcLoop_eq)

lemma calculateCLV_data: "data (calculateCLV toStr st) = data st"
  by (simp add: calculateCLV_def split: prod.splits)

lemma calculateCLV_length:
  "length (yearlyBreakdown (calculateCLV toStr st)) = nat (timeHorizon (data st))"
  by (simp add: calculateCLV_rows)

lemma calculateCLV_nth:
  "t < nat (timeHorizon (data st)) \<Longrightarrow>
     yearlyBreakdown (calculateCLV toStr st) ! t = yearRow toStr (data st) t"
  by (simp add: calculateCLV_rows)

text \<open>The result depends on the parameters alone: running it again changes nothing.\<close>

lemma calculateCLV_idem:
  "calculateCLV toStr (calculateCLV toStr st) = calculateCLV toStr st"
  by (simp add: calculateCLV_def split: prod.splits)

section \<open>The rows of the breakdown\<close>

text \<open>
  Claim C1. For parameters with a horizon of at least 1 whose probability entries are
  numbers (the data model of the specification has real entries; not-a-number is not
  one), \<open>calculateCLV\<close> returns exactly \<open>timeHorizon\<close> rows, the row at
  position \<open>t\<close> being the one of period \<open>t\<close>. Its \<open>repeatProb\<close> is
  \<open>repeatProbabilities[t]\<close> when the sequence has an entry there and 0 otherwise, its
  \<open>adjustedMargin\<close> is \<open>margin * (repeatProb / 100)\<close>, its \<open>discountFactor\<close> is
  \<open>(1 + discountRate / 100) ^ t\<close> and its \<open>presentValue\<close> is
  \<open>adjustedMargin / discountFactor\<close>.
\<close>

theorem calculateCLV_rows_spec:
  assumes "1 \<le> timeHorizon (data st)"
    and "NaN \<notin> set (repeatProbabilities (data st))"
  shows "length (yearlyBreakdown (calculateCLV toStr st)) = nat (timeHorizon (data st)) \<and>
    (\<forall>t < nat (timeHorizon (data st)).
       year (yearlyBreakdown (calculateCLV toStr st) ! t) = t \<and>
       repeatProb (yearlyBreakdown (calculateCLV toStr st) ! t) =
         (if t < length (repeatProbabilities (data st))
          then repeatProbabilities (data st) ! t else Fin 0) \<and>
       adjustedMargin (yearlyBreakdown (calculateCLV toStr st) ! t) =
         num_mul (margin (data st))
           (num_div (repeatProb (yearlyBreakdown (calculateCLV toStr st) ! t)) (Fin 100)) \<and>
       discountFactor (yearlyBreakdown (calculateCLV toStr st) ! t) =
         num_pow (num_add (Fin 1) (num_div (discountRate (data st)) (Fin 100))) t \<and>
       presentValue (yearlyBreakdown (calculateCLV toStr st) ! t) =
         num_div (adjustedMargin (yearlyBreakdown (calculateCLV toStr st) ! t))
           (discountFactor (yearlyBreakdown (calculateCLV toStr st) ! t)))"
proof (intro conjI allI impI)
  show "length (yearlyBreakdown (calculateCLV toStr st)) = nat (timeHorizon (data st))"
    by (rule calculateCLV_length)
next
  fix t
  assume t: "t < nat (timeHorizon (data st))"
  let ?r = "yearlyBreakdown (calculateCLV toStr st) ! t"
  have r: "?r = yearRow toStr (data st) t"
    using t by (rule calculateCLV_nth)
  have p: "repeatProb ?r = readProb (repeatProbabilities (data st)) t"
    by (simp add: r yearRow_def Let_def)
  show "year ?r = t"
    by (simp add: r yearRow_def Let_def)
  show "repeatProb ?r =
      (if t < length (repeatProbabilities (data st))
       then repeatProbabilities (data st) ! t else Fin 0)"
    unfolding p using assms(2) by (rule readProb_number)
  show "adjustedMargin ?r = num_mul (margin (data st)) (num_div (repeatProb ?r) (Fin 100))"
    by (simp add: r yearRow_def Let_def)
  show "discountFactor ?r =
      num_pow (num_add (Fin 1) (num_div (discountRate (data st)) (Fin 100))) t"
    by (simp add: r yearRow_def Let_def)
  show "presentValue ?r = num_div (adjustedMargin ?r) (discountFactor ?r)"
    by (simp add: r yearRow_def Let_def)
qed

theorem calculateCLV_rows_spec_witness:
  "1 \<le> timeHorizon (data initialState) \<and>
   NaN \<notin> set (repeatProbabilities (data initialState)) \<and>
   length (yearlyBreakdown (calculateCLV (\<lambda>a. []) initialState)) = 6 \<and>
   year (yearlyBreakdown (calculateCLV (\<lambda>a. []) initialState) ! 1) = 1 \<and>
   repeatProb (yearlyBreakdown (calculateCLV (\<lambda>a. []) initialState) ! 1) = Fin 90 \<and>
   adjustedMargin (yearlyBreakdown (calculateCLV (\<lambda>a. []) initialState) ! 1) = Fin 54 \<and>
   discountFactor (yearlyBreakdown (calculateCLV (\<lambda>a. []) initialState) ! 1) = Fin (11 / 10) \<and>
   presentValue (yearlyBreakdown (calculateCLV (\<lambda>a. []) initialState) ! 1) = Fin (540 / 11)"
proof -
  have h1: "1 \<le> timeHorizon (data initialState)" by simp
  have h2: "NaN \<notin> set (repeatProbabilities (data initialState))" by simp
  note w = calculateCLV_rows_spec[OF h1 h2, of "\<lambda>a. []"]
  have "(1::nat) < nat (timeHorizon (data initialState))" by simp
  with w have "year (yearlyBreakdown (calculateCLV (\<lambda>a. []) initialState) ! 1) = 1 \<and>
       repeatProb (yearlyBreakdown (calculateCLV (\<lambda>a. []) initialState) ! 1) =
         (if 1 < length (repeatProbabilities (data initialState))
          then repeatProbabilities (data initialState) ! 1 else Fin 0) \<and>
       adjustedMargin (yearlyBreakdown (calculateCLV (\<lambda>a. []) initialState) ! 1) =
         num_mul (margin (data initialState))
           (num_div (repeatProb (yearlyBreakdown (calculateCLV (\<lambda>a. []) initialState) ! 1)) (Fin 100)) \<and>
       discountFactor (yearlyBreakdown (calculateCLV (\<lambda>a. []) initialState) ! 1) =
         num_pow (num_add (Fin 1) (num_div (discountRate (data initialState)) (Fin 100))) 1 \<and>
       presentValue (yearlyBreakdown (calculateCLV (\<lambda>a. []) initialState) ! 1) =
         num_div (adjustedMargin (yearlyBreakdown (calculateCLV (\<lambda>a. []) initialState) ! 1))
           (discountFactor (yearlyBreakdown (calculateCLV (\<lambda>a. []) initialState) ! 1))"
    by blast
  with w h1 h2 show ?thesis by simp
qed

section \<open>The totals\<close>

text \<open>
  Claim C2. The \<open>totalPV\<close> that \<open>calculateCLV\<close> returns is the sum of the
  \<open>presentValue\<close> of the rows it returns, added in the order of the rows starting
  from 0, and the \<open>clv\<close> it returns is that \<open>totalPV\<close> minus
  \<open>acquisitionCost\<close>. This holds for every horizon.
\<close>

theorem calculateCLV_total_and_clv:
  "totalPV (calculateCLV toStr st) =
     foldl num_add (Fin 0) (map presentValue (yearlyBreakdown (calculateCLV toStr st))) \<and>
   clv (calculateCLV toStr st) =
     num_sub (totalPV (calculateCLV toStr st)) (acquisitionCost (data (calculateCLV toStr st)))"
  using calculateCLV_totalPV[of toStr st] calculateCLV_clv[of toStr st]
  by (simp add: calculateCLV_data)

section \<open>The horizon operations\<close>

text \<open>
  Claim C3. Both horizon operations preserve the invariant that the probability
  sequence has as many entries as the horizon counts: when
  \<open>repeatProbabilities.length = timeHorizon\<close> holds before \<open>addYear\<close> or
  \<open>removeYear\<close>, it holds after. The initial state has the invariant, and so has
  every state of the component (\<open>reachable_invariant\<close> below).
\<close>

theorem resize_preserves_length:
  assumes "int (length (repeatProbabilities (data st))) = timeHorizon (data st)"
  shows "int (length (repeatProbabilities (data (addYear st)))) = timeHorizon (data (addYear st)) \<and>
    int (length (repeatProbabilities (data (removeYear st)))) = timeHorizon (data (removeYear st))"
  using assms by (auto simp: addYear_def removeYear_def Let_def)

theorem resize_preserves_length_witness:
  "int (length (repeatProbabilities (data initialState))) = timeHorizon (data initialState) \<and>
   int (length (repeatProbabilities (data (addYear initialState)))) =
     timeHorizon (data (addYear initialState)) \<and>
   int (length (repeatProbabilities (data (removeYear initialState)))) =
     timeHorizon (data (removeYear initialState))"
proof -
  have h: "int (length (repeatProbabilities (data initialState))) = timeHorizon (data initialState)"
    by simp
  from resize_preserves_length[OF h] h show ?thesis by simp
qed

text \<open>
  The weaker form that \<open>calculateCLV\<close> needs to read no missing entry, at least as
  many entries as the horizon counts, is preserved as well.
\<close>

lemma resize_preserves_at_least:
  assumes "timeHorizon (data st) \<le> int (length (repeatProbabilities (data st)))"
  shows "timeHorizon (data (addYear st)) \<le> int (length (repeatProbabilities (data (addYear st)))) \<and>
    timeHorizon (data (removeYear st)) \<le> int (length (repeatProbabilities (data (removeYear st))))"
  using assms by (auto simp: addYear_def removeYear_def Let_def)

text \<open>
  Claim C4. With a horizon below 10, \<open>addYear\<close> adds 1 to \<open>timeHorizon\<close>, appends
  the single entry 20 to \<open>repeatProbabilities\<close> and changes nothing else. With a
  horizon of 10 it returns the state it was given.
\<close>

theorem addYear_spec:
  "(timeHorizon (data st) < 10 \<longrightarrow>
      timeHorizon (data (addYear st)) = timeHorizon (data st) + 1 \<and>
      repeatProbabilities (data (addYear st)) = repeatProbabilities (data st) @ [Fin 20] \<and>
      margin (data (addYear st)) = margin (data st) \<and>
      acquisitionCost (data (addYear st)) = acquisitionCost (data st) \<and>
      discountRate (data (addYear st)) = discountRate (data st) \<and>
      clv (addYear st) = clv st \<and>
      yearlyBreakdown (addYear st) = yearlyBreakdown st \<and>
      totalPV (addYear st) = totalPV st) \<and>
   (timeHorizon (data st) = 10 \<longrightarrow> addYear st = st)"
proof (cases "timeHorizon (data st) < 10")
  case True
  then have "addYear st =
      st\<lparr>data := (data st)\<lparr>timeHorizon := timeHorizon (data st) + 1,
                 repeatProbabilities := repeatProbabilities (data st) @ [Fin 20]\<rparr>\<rparr>"
    by (simp add: addYear_def Let_def)
  with True show ?thesis by simp
next
  case False
  then have "addYear st = st"
    by (simp add: addYear_def Let_def)
  with False show ?thesis by simp
qed

theorem addYear_spec_witness:
  "timeHorizon (data initialState) < 10 \<and>
   timeHorizon (data (addYear initialState)) = 7 \<and>
   repeatProbabilities (data (addYear initialState)) =
     [Fin 100, Fin 90, Fin 85, Fin 85, Fin 60, Fin 30, Fin 20] \<and>
   timeHorizon (data (addYear (addYear (addYear (addYear initialState))))) = 10 \<and>
   addYear (addYear (addYear (addYear (addYear initialState)))) =
     addYear (addYear (addYear (addYear initialState)))"
proof -
  have h1: "timeHorizon (data initialState) < 10" by simp
  have h2: "timeHorizon (data (addYear (addYear (addYear (addYear initialState))))) = 10"
    by (simp add: addYear_def Let_def)
  from addYear_spec[of initialState] h1
  have "timeHorizon (data (addYear initialState)) = timeHorizon (data initialState) + 1"
    and "repeatProbabilities (data (addYear initialState)) =
      repeatProbabilities (data initialState) @ [Fin 20]"
    by blast+
  moreover from addYear_spec[of "addYear (addYear (addYear (addYear initialState)))"] h2
  have "addYear (addYear (addYear (addYear (addYear initialState)))) =
     addYear (addYear (addYear (addYear initialState)))"
    by blast
  ultimately show ?thesis using h1 h2 by simp
qed

text \<open>
  Claim C5. With a horizon above 1, \<open>removeYear\<close> takes 1 from \<open>timeHorizon\<close>,
  drops the last entry of \<open>repeatProbabilities\<close> (the entries before it stay, in
  order) and changes nothing else. With a horizon of 1 it returns the state it was
  given.
\<close>

theorem removeYear_spec:
  "(timeHorizon (data st) > 1 \<longrightarrow>
      timeHorizon (data (removeYear st)) = timeHorizon (data st) - 1 \<and>
      repeatProbabilities (data (removeYear st)) = butlast (repeatProbabilities (data st)) \<and>
      (repeatProbabilities (data st) \<noteq> [] \<longrightarrow>
         repeatProbabilities (data (removeYear st)) @ [last (repeatProbabilities (data st))] =
           repeatProbabilities (data st)) \<and>
      margin (data (removeYear st)) = margin (data st) \<and>
      acquisitionCost (data (removeYear st)) = acquisitionCost (data st) \<and>
      discountRate (data (removeYear st)) = discountRate (data st) \<and>
      clv (removeYear st) = clv st \<and>
      yearlyBreakdown (removeYear st) = yearlyBreakdown st \<and>
      totalPV (removeYear st) = totalPV st) \<and>
   (timeHorizon (data st) = 1 \<longrightarrow> removeYear st = st)"
proof (cases "timeHorizon (data st) > 1")
  case True
  then have "removeYear st =
      st\<lparr>data := (data st)\<lparr>timeHorizon := timeHorizon (data st) - 1,
                 repeatProbabilities := butlast (repeatProbabilities (data st))\<rparr>\<rparr>"
    by (simp add: removeYear_def Let_def)
  with True show ?thesis by simp
next
  case False
  then have "removeYear st = st"
    by (simp add: removeYear_def Let_def)
  with False show ?thesis by simp
qed

theorem removeYear_spec_witness:
  "timeHorizon (data initialState) > 1 \<and>
   timeHorizon (data (removeYear initialState)) = 5 \<and>
   repeatProbabilities (data (removeYear initialState)) =
     [Fin 100, Fin 90, Fin 85, Fin 85, Fin 60] \<and>
   repeatProbabilities (data (removeYear initialState)) @ [Fin 30] =
     repeatProbabilities (data initialState) \<and>
   timeHorizon (data (removeYear (removeYear (removeYear (removeYear (removeYear
     initialState)))))) = 1 \<and>
   removeYear (removeYear (removeYear (removeYear (removeYear (removeYear initialState))))) =
     removeYear (removeYear (removeYear (removeYear (removeYear initialState))))"
proof -
  have h1: "timeHorizon (data initialState) > 1" by simp
  have h2: "timeHorizon (data (removeYear (removeYear (removeYear (removeYear (removeYear
     initialState)))))) = 1"
    by (simp add: removeYear_def Let_def)
  have h3: "repeatProbabilities (data initialState) \<noteq> []" by simp
  from removeYear_spec[of initialState] h1 h3
  have "timeHorizon (data (removeYear initialState)) = timeHorizon (data initialState) - 1"
    and "repeatProbabilities (data (removeYear initialState)) =
      butlast (repeatProbabilities (data initialState))"
    and "repeatProbabilities (data (removeYear initialState)) @
        [last (repeatProbabilities (data initialState))] =
      repeatProbabilities (data initialState)"
    by blast+
  moreover from removeYear_spec[of "removeYear (removeYear (removeYear (removeYear (removeYear
     initialState))))"] h2
  have "removeYear (removeYear (removeYear (removeYear (removeYear (removeYear initialState))))) =
     removeYear (removeYear (removeYear (removeYear (removeYear initialState))))"
    by blast
  ultimately show ?thesis using h1 h2 by simp
qed

section \<open>The exported table\<close>

text \<open>Decimal digits.\<close>

lemma digit_cases:
  fixes n :: nat
  assumes "n < 10"
  obtains "n = 0" | "n = 1" | "n = 2" | "n = 3" | "n = 4" | "n = 5" | "n = 6"
    | "n = 7" | "n = 8" | "n = 9"
  using assms by atomize_elim arith

lemma digit_is_digit: "n < 10 \<Longrightarrow> is_digit (digit n)"
  by (erule digit_cases) (simp_all add: is_digit_def digit_def)

lemma digits_nonempty: "digits n \<noteq> []"
  by (subst digits.simps) simp

lemma digits_all_digit: "list_all is_digit (digits n)"
proof (induction n rule: digits.induct)
  case (1 n)
  show ?case
  proof (cases "n < 10")
    case True
    then show ?thesis by (subst digits.simps) (simp add: digit_is_digit)
  next
    case False
    with "1.IH" show ?thesis
      by (subst digits.simps) (simp add: digit_is_digit)
  qed
qed

lemma digits_val_append:
  "digits_val (xs @ [c]) = 10 * digits_val xs + (of_char c - 48)"
  by (simp add: digits_val_def)

lemma of_char_digit: "n < 10 \<Longrightarrow> of_char (digit n) = 48 + n"
  by (erule digit_cases) (simp_all add: digit_def)

lemma digits_val_digits: "digits_val (digits n) = n"
proof (induction n rule: digits.induct)
  case (1 n)
  show ?case
  proof (cases "n < 10")
    case True
    then show ?thesis
      by (subst digits.simps) (simp add: digits_val_def of_char_digit)
  next
    case False
    with "1.IH" show ?thesis
      by (subst digits.simps) (simp add: digits_val_append of_char_digit)
  qed
qed

lemma digits_val_zeros: "digits_val (replicate j (CHR ''0'') @ m) = digits_val m"
proof -
  have "foldl (\<lambda>acc c. 10 * acc + (of_char c - 48)) 0 (replicate j (CHR ''0'')) = (0::nat)"
    by (induction j) simp_all
  then show ?thesis by (simp add: digits_val_def)
qed

lemma fixed_digits_shape:
  "\<exists>ip fp. fixed_digits n f = ip @ (if f = 0 then [] else ''.'' @ fp) \<and>
     ip \<noteq> [] \<and> length fp = f \<and> list_all is_digit (ip @ fp) \<and> digits_val (ip @ fp) = n"
proof -
  define m where "m = (if length (digits n) \<le> f
    then replicate (f + 1 - length (digits n)) (CHR ''0'') @ digits n else digits n)"
  have zero: "is_digit (CHR ''0'')" by (simp add: is_digit_def)
  have len: "f < length m" by (simp add: m_def)
  have dig: "list_all is_digit m"
    using digits_all_digit[of n] zero by (simp add: m_def list_all_iff)
  have val: "digits_val m = n"
    by (simp add: m_def digits_val_zeros digits_val_digits)
  have fd: "fixed_digits n f =
      (if f \<noteq> 0 then take (length m - f) m @ ''.'' @ drop (length m - f) m else m)"
    by (simp add: fixed_digits_def Let_def m_def)
  show ?thesis
  proof (rule exI[of _ "take (length m - f) m"], rule exI[of _ "drop (length m - f) m"],
      intro conjI)
    show "fixed_digits n f = take (length m - f) m @
        (if f = 0 then [] else ''.'' @ drop (length m - f) m)"
      by (simp add: fd)
    show "take (length m - f) m \<noteq> []" using len by auto
    show "length (drop (length m - f) m) = f" using len by simp
    show "list_all is_digit (take (length m - f) m @ drop (length m - f) m)"
      using dig by simp
    show "digits_val (take (length m - f) m @ drop (length m - f) m) = n"
      using val by simp
  qed
qed

lemma toFixed_finite:
  assumes "\<bar>a\<bar> < 10 ^ 21"
  shows "\<exists>ip fp. toFixed toStr (Fin a) f =
       (if a < 0 then ''-'' else []) @ ip @ (if f = 0 then [] else ''.'' @ fp) \<and>
     ip \<noteq> [] \<and> length fp = f \<and> list_all is_digit (ip @ fp) \<and>
     digits_val (ip @ fp) = nat \<lfloor>\<bar>a\<bar> * 10 ^ f + 1 / 2\<rfloor>"
proof -
  obtain ip fp where
    "fixed_digits (nat \<lfloor>\<bar>a\<bar> * 10 ^ f + 1 / 2\<rfloor>) f = ip @ (if f = 0 then [] else ''.'' @ fp)"
    "ip \<noteq> []" "length fp = f" "list_all is_digit (ip @ fp)"
    "digits_val (ip @ fp) = nat \<lfloor>\<bar>a\<bar> * 10 ^ f + 1 / 2\<rfloor>"
    using fixed_digits_shape by blast
  moreover have "toFixed toStr (Fin a) f =
      (if a < 0 then ''-'' else []) @ fixed_digits (nat \<lfloor>\<bar>a\<bar> * 10 ^ f + 1 / 2\<rfloor>) f"
    using assms by (simp add: toFixed_def Let_def abs_if)
  ultimately show ?thesis by auto
qed

lemma toFixed_not_finite:
  "toFixed toStr PInf f = ''Infinity''"
  "toFixed toStr NInf f = ''-Infinity''"
  "toFixed toStr NaN f = ''NaN''"
  by (simp_all add: toFixed_def)

lemma round_half_up_error:
  fixes x :: real
  assumes "0 \<le> x"
  shows "\<bar>real (nat \<lfloor>x * 10 ^ f + 1 / 2\<rfloor>) / 10 ^ f - x\<bar> \<le> 1 / (2 * 10 ^ f)"
proof -
  let ?n = "\<lfloor>x * 10 ^ f + 1 / 2\<rfloor>"
  have nn: "0 \<le> ?n" using assms by simp
  have lo: "real_of_int ?n \<le> x * 10 ^ f + 1 / 2" by linarith
  have hi: "x * 10 ^ f + 1 / 2 < real_of_int ?n + 1" by linarith
  have half: "\<bar>real_of_int ?n - x * 10 ^ f\<bar> \<le> 1 / 2" using lo hi by linarith
  have "real_of_int ?n / 10 ^ f - x = (real_of_int ?n - x * 10 ^ f) / 10 ^ f"
    by (simp add: diff_divide_distrib)
  then have "\<bar>real_of_int ?n / 10 ^ f - x\<bar> = \<bar>real_of_int ?n - x * 10 ^ f\<bar> / 10 ^ f"
    by (simp only: abs_divide) simp
  also have "\<dots> \<le> (1 / 2) / 10 ^ f"
    using half by (rule divide_right_mono) simp
  finally show ?thesis using nn by simp
qed

text \<open>The text of a number formatted to decimals, and the lines of the export.\<close>

lemma not_digit_signs: "\<not> is_digit (CHR ''-'')" "\<not> is_digit (CHR ''.'')"
  by (simp_all add: is_digit_def)

lemma filter_digits: "list_all is_digit xs \<Longrightarrow> filter is_digit xs = xs"
  by (induction xs) simp_all

lemma fixed_text:
  assumes ip: "ip \<noteq> []" and fp: "length fp = f" and dg: "list_all is_digit (ip @ fp)"
    and sg: "mn = [] \<or> mn = ''-''"
  shows "fixed_format f (mn @ ip @ (if f = 0 then [] else ''.'' @ fp)) \<and>
    fixed_value (mn @ ip @ (if f = 0 then [] else ''.'' @ fp)) = digits_val (ip @ fp) \<and>
    (take 1 (mn @ ip @ (if f = 0 then [] else ''.'' @ fp)) = ''-'') = (mn = ''-'')"
proof -
  let ?b = "ip @ (if f = 0 then [] else ''.'' @ fp)"
  from ip obtain c r where c: "ip = c # r" by (cases ip) auto
  with dg have cd: "is_digit c" by simp
  then have cm: "c \<noteq> CHR ''-''" using not_digit_signs(1) by auto
  have strip: "strip_sign (mn @ ?b) = ?b"
    using sg c cm by auto
  have di: "list_all is_digit ip" "list_all is_digit fp" using dg by simp_all
  have fmt: "fixed_format f (mn @ ?b)"
  proof (cases "f = 0")
    case True
    then show ?thesis
      unfolding fixed_format_def strip Let_def using ip di by simp
  next
    case False
    have len: "length ?b = length ip + (f + 1)" using False fp by simp
    have "f + 1 < length ?b" using len ip by (cases ip) simp_all
    moreover have "take (length ?b - (f + 1)) ?b = ip" using len by simp
    moreover have "?b ! (length ?b - (f + 1)) = CHR ''.''"
      using len False by (simp add: nth_append)
    moreover have "drop (length ?b - f) ?b = fp"
      using len False fp by simp
    ultimately show ?thesis
      unfolding fixed_format_def strip Let_def using False di by simp
  qed
  have val: "fixed_value (mn @ ?b) = digits_val (ip @ fp)"
    using sg di fp by (auto simp: fixed_value_def not_digit_signs filter_digits)
  have sign: "(take 1 (mn @ ?b) = ''-'') = (mn = ''-'')"
    using sg c cm by auto
  from fmt val sign show ?thesis by blast
qed


lemma toFixed_shows_num: "shows_num toStr x f (toFixed toStr x f)"
proof (cases x)
  case (Fin a)
  show ?thesis
  proof (cases "\<bar>a\<bar> < 10 ^ 21")
    case True
    from toFixed_finite[OF True, of toStr f] obtain ip fp where
      s: "toFixed toStr (Fin a) f =
        (if a < 0 then ''-'' else []) @ ip @ (if f = 0 then [] else ''.'' @ fp)"
      and ip: "ip \<noteq> []" and fp: "length fp = f" and dg: "list_all is_digit (ip @ fp)"
      and v: "digits_val (ip @ fp) = nat \<lfloor>\<bar>a\<bar> * 10 ^ f + 1 / 2\<rfloor>"
      by blast
    have sg: "(if a < 0 then ''-'' else []) = [] \<or> (if a < 0 then ''-'' else []) = ''-''"
      by simp
    from fixed_text[OF ip fp dg sg] v show ?thesis
      unfolding Fin shows_num_def s using True by simp
  next
    case False
    then show ?thesis
      unfolding Fin shows_num_def by (simp add: toFixed_def Let_def abs_if)
  qed
qed (simp_all add: shows_num_def toFixed_def)

lemma join_Cons: "xs \<noteq> [] \<Longrightarrow> join sep (x # xs) = x @ sep @ join sep xs"
  by (cases xs) simp_all

lemma csvContent_lines:
  "csvContent toStr st =
     join [CHR 0x0A]
       ([''Year,Margin ($),Repeat Prob (%),Adjusted Margin ($),Discount Factor,Present Value ($),Calculation'']
        @ map (\<lambda>row.
            (if year row = 0 then ''Acquisition'' else ''Year '' @ digits (year row))
            @ '','' @ toFixed toStr (rowMargin row) 2
            @ '','' @ toFixed toStr (repeatProb row) 0
            @ '','' @ toFixed toStr (adjustedMargin row) 2
            @ '','' @ toFixed toStr (discountFactor row) 4
            @ '','' @ toFixed toStr (presentValue row) 2
            @ '','' @ calculation row) (yearlyBreakdown st)
        @ ['',,,,,Total PV:,'' @ toFixed toStr (totalPV st) 2,
           '',,,,,Acquisition Cost:,'' @ toFixed toStr (num_neg (acquisitionCost (data st))) 2,
           '',,,,,Final CLV:,'' @ toFixed toStr (clv st) 2])"
  by (simp add: csvContent_def csvTable_def csvHeader_def csvDataRow_def yearLabel_def comp_def)

lemma csvContent_first_line:
  "take 98 (csvContent toStr st) =
     ''Year,Margin ($),Repeat Prob (%),Adjusted Margin ($),Discount Factor,Present Value ($),Calculation''
     @ [CHR 0x0A]"
  by (simp add: csvContent_lines join_Cons)

lemma csvTable_data_row:
  "i < length (yearlyBreakdown st) \<Longrightarrow>
     csvTable toStr st ! (i + 1) = csvDataRow toStr (yearlyBreakdown st ! i)"
  by (simp add: csvTable_def nth_append)

lemma csvTable_summary_rows:
  "drop (length (yearlyBreakdown st) + 1) (csvTable toStr st) =
     [['''', '''', '''', '''', '''', ''Total PV:'', toFixed toStr (totalPV st) 2],
      ['''', '''', '''', '''', '''', ''Acquisition Cost:'',
         toFixed toStr (num_neg (acquisitionCost (data st))) 2],
      ['''', '''', '''', '''', '''', ''Final CLV:'', toFixed toStr (clv st) 2]]"
  by (simp add: csvTable_def)

text \<open>
  Claim C6, amended. The text that \<open>exportResults\<close> produces is the table below, the
  cells of a row joined by commas and the rows by line feeds: its first line is
  \<open>Year,Margin ($),Repeat Prob (%),Adjusted Margin ($),Discount Factor,Present Value
  ($),Calculation\<close>. The table has that header as its first row. Then comes one row of
  seven cells for each row of the breakdown, in order: the label \<open>Acquisition\<close> for
  period 0 and \<open>Year N\<close> for period \<open>N > 0\<close>; the margin, the adjusted margin and the
  present value printed by \<open>toFixed\<close> with 2 fraction digits, the discount factor with
  4 and the repeat probability with 0; and the calculation text. Such a cell is the
  number formatted to that many decimals when the number is finite and below
  \<open>10^21\<close> in magnitude, and the platform's text of the number otherwise
  (\<open>Infinity\<close>, \<open>-Infinity\<close>, \<open>NaN\<close>, or the text of a larger magnitude after its
  sign): \<open>shows_num\<close>. Exactly three rows follow, with \<open>totalPV\<close>, the negated
  \<open>acquisitionCost\<close> and \<open>clv\<close>, each printed the same way with 2 fraction digits.
  After \<open>calculateCLV\<close> the table has a row for each period below the horizon,
  labelled by that period.
\<close>

theorem exportResults_spec:
  "csvContent toStr st = join [CHR 0x0A] (map (join '','') (csvTable toStr st)) \<and>
   csvContent toStr st =
     join [CHR 0x0A]
       ([''Year,Margin ($),Repeat Prob (%),Adjusted Margin ($),Discount Factor,Present Value ($),Calculation'']
        @ map (\<lambda>row.
            (if year row = 0 then ''Acquisition'' else ''Year '' @ digits (year row))
            @ '','' @ toFixed toStr (rowMargin row) 2
            @ '','' @ toFixed toStr (repeatProb row) 0
            @ '','' @ toFixed toStr (adjustedMargin row) 2
            @ '','' @ toFixed toStr (discountFactor row) 4
            @ '','' @ toFixed toStr (presentValue row) 2
            @ '','' @ calculation row) (yearlyBreakdown st)
        @ ['',,,,,Total PV:,'' @ toFixed toStr (totalPV st) 2,
           '',,,,,Acquisition Cost:,'' @ toFixed toStr (num_neg (acquisitionCost (data st))) 2,
           '',,,,,Final CLV:,'' @ toFixed toStr (clv st) 2]) \<and>
   csvTable toStr st ! 0 =
     [''Year'', ''Margin ($)'', ''Repeat Prob (%)'', ''Adjusted Margin ($)'',
      ''Discount Factor'', ''Present Value ($)'', ''Calculation''] \<and>
   length (csvTable toStr st) = length (yearlyBreakdown st) + 4 \<and>
   (\<forall>i < length (yearlyBreakdown st).
      length (csvTable toStr st ! (i + 1)) = 7 \<and>
      csvTable toStr st ! (i + 1) ! 0 =
        (if year (yearlyBreakdown st ! i) = 0 then ''Acquisition''
         else ''Year '' @ digits (year (yearlyBreakdown st ! i))) \<and>
      csvTable toStr st ! (i + 1) ! 1 = toFixed toStr (rowMargin (yearlyBreakdown st ! i)) 2 \<and>
      csvTable toStr st ! (i + 1) ! 2 = toFixed toStr (repeatProb (yearlyBreakdown st ! i)) 0 \<and>
      csvTable toStr st ! (i + 1) ! 3 =
        toFixed toStr (adjustedMargin (yearlyBreakdown st ! i)) 2 \<and>
      csvTable toStr st ! (i + 1) ! 4 =
        toFixed toStr (discountFactor (yearlyBreakdown st ! i)) 4 \<and>
      csvTable toStr st ! (i + 1) ! 5 =
        toFixed toStr (presentValue (yearlyBreakdown st ! i)) 2 \<and>
      csvTable toStr st ! (i + 1) ! 6 = calculation (yearlyBreakdown st ! i) \<and>
      shows_num toStr (rowMargin (yearlyBreakdown st ! i)) 2 (csvTable toStr st ! (i + 1) ! 1) \<and>
      shows_num toStr (repeatProb (yearlyBreakdown st ! i)) 0 (csvTable toStr st ! (i + 1) ! 2) \<and>
      shows_num toStr (adjustedMargin (yearlyBreakdown st ! i)) 2
        (csvTable toStr st ! (i + 1) ! 3) \<and>
      shows_num toStr (discountFactor (yearlyBreakdown st ! i)) 4
        (csvTable toStr st ! (i + 1) ! 4) \<and>
      shows_num toStr (presentValue (yearlyBreakdown st ! i)) 2
        (csvTable toStr st ! (i + 1) ! 5)) \<and>
   drop (length (yearlyBreakdown st) + 1) (csvTable toStr st) =
     [['''', '''', '''', '''', '''', ''Total PV:'', toFixed toStr (totalPV st) 2],
      ['''', '''', '''', '''', '''', ''Acquisition Cost:'',
         toFixed toStr (num_neg (acquisitionCost (data st))) 2],
      ['''', '''', '''', '''', '''', ''Final CLV:'', toFixed toStr (clv st) 2]] \<and>
   shows_num toStr (totalPV st) 2 (toFixed toStr (totalPV st) 2) \<and>
   shows_num toStr (num_neg (acquisitionCost (data st))) 2
     (toFixed toStr (num_neg (acquisitionCost (data st))) 2) \<and>
   shows_num toStr (clv st) 2 (toFixed toStr (clv st) 2) \<and>
   length (csvTable toStr (calculateCLV toStr st)) = nat (timeHorizon (data st)) + 4 \<and>
   (\<forall>t < nat (timeHorizon (data st)).
      hd (csvTable toStr (calculateCLV toStr st) ! (t + 1)) =
        (if t = 0 then ''Acquisition'' else ''Year '' @ digits t))"
proof (intro conjI allI impI)
  show "csvContent toStr st = join [CHR 0x0A] (map (join '','') (csvTable toStr st))"
    by (rule csvContent_def)
next
  fix i
  assume i: "i < length (yearlyBreakdown st)"
  note r = csvTable_data_row[OF i, of toStr]
  show "length (csvTable toStr st ! (i + 1)) = 7"
    by (simp only: r) (simp add: csvDataRow_def)
  show "csvTable toStr st ! (i + 1) ! 0 =
        (if year (yearlyBreakdown st ! i) = 0 then ''Acquisition''
         else ''Year '' @ digits (year (yearlyBreakdown st ! i)))"
    by (simp only: r) (simp add: csvDataRow_def yearLabel_def)
  show "csvTable toStr st ! (i + 1) ! 1 = toFixed toStr (rowMargin (yearlyBreakdown st ! i)) 2"
    by (simp only: r) (simp add: csvDataRow_def)
  show "csvTable toStr st ! (i + 1) ! 2 = toFixed toStr (repeatProb (yearlyBreakdown st ! i)) 0"
    by (simp only: r) (simp add: csvDataRow_def)
  show "csvTable toStr st ! (i + 1) ! 3 =
        toFixed toStr (adjustedMargin (yearlyBreakdown st ! i)) 2"
    by (simp only: r) (simp add: csvDataRow_def)
  show "csvTable toStr st ! (i + 1) ! 4 =
        toFixed toStr (discountFactor (yearlyBreakdown st ! i)) 4"
    by (simp only: r) (simp add: csvDataRow_def)
  show "csvTable toStr st ! (i + 1) ! 5 =
        toFixed toStr (presentValue (yearlyBreakdown st ! i)) 2"
    by (simp only: r) (simp add: csvDataRow_def)
  show "csvTable toStr st ! (i + 1) ! 6 = calculation (yearlyBreakdown st ! i)"
    by (simp only: r) (simp add: csvDataRow_def)
  show "shows_num toStr (rowMargin (yearlyBreakdown st ! i)) 2 (csvTable toStr st ! (i + 1) ! 1)"
    by (simp only: r) (simp add: csvDataRow_def toFixed_shows_num)
  show "shows_num toStr (repeatProb (yearlyBreakdown st ! i)) 0 (csvTable toStr st ! (i + 1) ! 2)"
    by (simp only: r) (simp add: csvDataRow_def toFixed_shows_num)
  show "shows_num toStr (adjustedMargin (yearlyBreakdown st ! i)) 2
        (csvTable toStr st ! (i + 1) ! 3)"
    by (simp only: r) (simp add: csvDataRow_def toFixed_shows_num)
  show "shows_num toStr (discountFactor (yearlyBreakdown st ! i)) 4
        (csvTable toStr st ! (i + 1) ! 4)"
    by (simp only: r) (simp add: csvDataRow_def toFixed_shows_num)
  show "shows_num toStr (presentValue (yearlyBreakdown st ! i)) 2
        (csvTable toStr st ! (i + 1) ! 5)"
    by (simp only: r) (simp add: csvDataRow_def toFixed_shows_num)
next
  fix t
  assume t: "t < nat (timeHorizon (data st))"
  then have "t < length (yearlyBreakdown (calculateCLV toStr st))"
    by (simp add: calculateCLV_length)
  note r = csvTable_data_row[OF this, of toStr]
  show "hd (csvTable toStr (calculateCLV toStr st) ! (t + 1)) =
        (if t = 0 then ''Acquisition'' else ''Year '' @ digits t)"
    by (simp only: r calculateCLV_nth[OF t])
       (simp add: csvDataRow_def yearLabel_def yearRow_def Let_def)
next
  show "csvContent toStr st =
     join [CHR 0x0A]
       ([''Year,Margin ($),Repeat Prob (%),Adjusted Margin ($),Discount Factor,Present Value ($),Calculation'']
        @ map (\<lambda>row.
            (if year row = 0 then ''Acquisition'' else ''Year '' @ digits (year row))
            @ '','' @ toFixed toStr (rowMargin row) 2
            @ '','' @ toFixed toStr (repeatProb row) 0
            @ '','' @ toFixed toStr (adjustedMargin row) 2
            @ '','' @ toFixed toStr (discountFactor row) 4
            @ '','' @ toFixed toStr (presentValue row) 2
            @ '','' @ calculation row) (yearlyBreakdown st)
        @ ['',,,,,Total PV:,'' @ toFixed toStr (totalPV st) 2,
           '',,,,,Acquisition Cost:,'' @ toFixed toStr (num_neg (acquisitionCost (data st))) 2,
           '',,,,,Final CLV:,'' @ toFixed toStr (clv st) 2])"
    by (rule csvContent_lines)
  show "csvTable toStr st ! 0 =
     [''Year'', ''Margin ($)'', ''Repeat Prob (%)'', ''Adjusted Margin ($)'',
      ''Discount Factor'', ''Present Value ($)'', ''Calculation'']"
    by (simp add: csvTable_def csvHeader_def)
  show "length (csvTable toStr st) = length (yearlyBreakdown st) + 4"
    by (simp add: csvTable_def)
  show "drop (length (yearlyBreakdown st) + 1) (csvTable toStr st) =
     [['''', '''', '''', '''', '''', ''Total PV:'', toFixed toStr (totalPV st) 2],
      ['''', '''', '''', '''', '''', ''Acquisition Cost:'',
         toFixed toStr (num_neg (acquisitionCost (data st))) 2],
      ['''', '''', '''', '''', '''', ''Final CLV:'', toFixed toStr (clv st) 2]]"
    by (rule csvTable_summary_rows)
  show "shows_num toStr (totalPV st) 2 (toFixed toStr (totalPV st) 2)"
    by (rule toFixed_shows_num)
  show "shows_num toStr (num_neg (acquisitionCost (data st))) 2
     (toFixed toStr (num_neg (acquisitionCost (data st))) 2)"
    by (rule toFixed_shows_num)
  show "shows_num toStr (clv st) 2 (toFixed toStr (clv st) 2)"
    by (rule toFixed_shows_num)
  show "length (csvTable toStr (calculateCLV toStr st)) = nat (timeHorizon (data st)) + 4"
    by (simp add: csvTable_def calculateCLV_length)
qed

section \<open>The degenerate discount rate\<close>

lemma num_add_not_finite_left: "\<not> finite_num x \<Longrightarrow> \<not> finite_num (num_add x y)"
  by (cases x; cases y) (simp_all add: finite_num_def)

lemma num_add_not_finite_right: "\<not> finite_num y \<Longrightarrow> \<not> finite_num (num_add x y)"
  by (cases x; cases y) (simp_all add: finite_num_def)

lemma num_neg_finite: "finite_num (num_neg x) = finite_num x"
  by (cases x) (simp_all add: finite_num_def)

lemma foldl_not_finite_acc: "\<not> finite_num a \<Longrightarrow> \<not> finite_num (foldl num_add a xs)"
  by (induction xs arbitrary: a) (simp_all add: num_add_not_finite_left)

lemma foldl_not_finite:
  "x \<in> set xs \<Longrightarrow> \<not> finite_num x \<Longrightarrow> \<not> finite_num (foldl num_add a xs)"
  by (induction xs arbitrary: a)
     (auto simp: num_add_not_finite_right foldl_not_finite_acc)

lemma num_div_zero:
  "num_div x (Fin 0) =
     (case x of Fin a \<Rightarrow> (if a = 0 then NaN else if 0 < a then PInf else NInf)
      | PInf \<Rightarrow> PInf | NInf \<Rightarrow> NInf | NaN \<Rightarrow> NaN)"
  by (cases x) simp_all

lemma num_div_zero_not_finite: "\<not> finite_num (num_div x (Fin 0))"
  by (cases x) (simp_all add: finite_num_def)

lemma num_pow_zero: "0 < t \<Longrightarrow> num_pow (Fin 0) t = Fin 0"
  by (cases t) simp_all

text \<open>
  Claim C7. With \<open>discountRate = -100\<close> the discount factor of every period
  \<open>t \<ge> 1\<close> below the horizon is 0, and \<open>calculateCLV\<close> neither guards nor clamps:
  the present value of such a period is the quotient of \<open>adjustedMargin\<close> by 0,
  which is an infinity with the sign of a finite non-zero \<open>adjustedMargin\<close> and
  not-a-number for a zero one, and is never finite. With a horizon of at least 2 the
  value that is not finite goes on into \<open>totalPV\<close> and \<open>clv\<close>. No function of the
  model has an error result, as no statement of \<open>calculateCLV\<close>, \<open>addYear\<close> and
  \<open>removeYear\<close> can throw: they are total.
\<close>

theorem degenerate_rate_propagates:
  assumes "discountRate (data st) = Fin (- 100)"
  shows "(\<forall>t. 1 \<le> t \<and> t < nat (timeHorizon (data st)) \<longrightarrow>
      discountFactor (yearlyBreakdown (calculateCLV toStr st) ! t) = Fin 0 \<and>
      presentValue (yearlyBreakdown (calculateCLV toStr st) ! t) =
        (case adjustedMargin (yearlyBreakdown (calculateCLV toStr st) ! t) of
           Fin a \<Rightarrow> (if a = 0 then NaN else if 0 < a then PInf else NInf)
         | PInf \<Rightarrow> PInf | NInf \<Rightarrow> NInf | NaN \<Rightarrow> NaN) \<and>
      \<not> finite_num (presentValue (yearlyBreakdown (calculateCLV toStr st) ! t))) \<and>
    (2 \<le> timeHorizon (data st) \<longrightarrow>
      \<not> finite_num (totalPV (calculateCLV toStr st)) \<and>
      \<not> finite_num (clv (calculateCLV toStr st)))"
proof -
  have row: "discountFactor (yearRow toStr (data st) t) = Fin 0 \<and>
      presentValue (yearRow toStr (data st) t) =
        num_div (adjustedMargin (yearRow toStr (data st) t)) (Fin 0)" if "1 \<le> t" for t
    using that assms by (simp add: yearRow_def Let_def num_pow_zero)
  have rows: "discountFactor (yearlyBreakdown (calculateCLV toStr st) ! t) = Fin 0 \<and>
      presentValue (yearlyBreakdown (calculateCLV toStr st) ! t) =
        num_div (adjustedMargin (yearlyBreakdown (calculateCLV toStr st) ! t)) (Fin 0)"
    if "1 \<le> t" "t < nat (timeHorizon (data st))" for t
    using that row[of t] by (simp add: calculateCLV_nth)
  have tot: "\<not> finite_num (totalPV (calculateCLV toStr st))" if h: "2 \<le> timeHorizon (data st)"
  proof -
    from h have lt: "1 < nat (timeHorizon (data st))" by linarith
    then have "1 < length (yearlyBreakdown (calculateCLV toStr st))"
      by (simp add: calculateCLV_length)
    then have mem: "presentValue (yearlyBreakdown (calculateCLV toStr st) ! 1)
        \<in> set (map presentValue (yearlyBreakdown (calculateCLV toStr st)))"
      by (metis length_map nth_map nth_mem)
    have "\<not> finite_num (presentValue (yearlyBreakdown (calculateCLV toStr st) ! 1))"
      using rows[of 1] lt by (simp add: num_div_zero_not_finite)
    with mem show ?thesis
      by (subst calculateCLV_totalPV) (rule foldl_not_finite)
  qed
  have "\<not> finite_num (clv (calculateCLV toStr st))" if "2 \<le> timeHorizon (data st)"
    using tot[OF that] by (simp add: calculateCLV_clv num_sub_def num_add_not_finite_left)
  with tot rows show ?thesis
    by (simp add: num_div_zero num_div_zero_not_finite flip: num_div_zero)
qed

theorem degenerate_rate_propagates_witness:
  "discountRate (data (initialState\<lparr>data := initialData\<lparr>discountRate := Fin (- 100)\<rparr>\<rparr>))
     = Fin (- 100) \<and>
   discountFactor (yearlyBreakdown (calculateCLV (\<lambda>a. [])
     (initialState\<lparr>data := initialData\<lparr>discountRate := Fin (- 100)\<rparr>\<rparr>)) ! 1) = Fin 0 \<and>
   presentValue (yearlyBreakdown (calculateCLV (\<lambda>a. [])
     (initialState\<lparr>data := initialData\<lparr>discountRate := Fin (- 100)\<rparr>\<rparr>)) ! 1) = PInf \<and>
   \<not> finite_num (totalPV (calculateCLV (\<lambda>a. [])
     (initialState\<lparr>data := initialData\<lparr>discountRate := Fin (- 100)\<rparr>\<rparr>))) \<and>
   \<not> finite_num (clv (calculateCLV (\<lambda>a. [])
     (initialState\<lparr>data := initialData\<lparr>discountRate := Fin (- 100)\<rparr>\<rparr>)))"
proof -
  let ?st = "initialState\<lparr>data := initialData\<lparr>discountRate := Fin (- 100)\<rparr>\<rparr>"
  have h: "discountRate (data ?st) = Fin (- 100)" by simp
  have t: "1 \<le> (1::nat) \<and> 1 < nat (timeHorizon (data ?st))" "2 \<le> timeHorizon (data ?st)"
    by (simp_all add: initialData_def)
  have am: "adjustedMargin (yearlyBreakdown (calculateCLV (\<lambda>a. []) ?st) ! 1) = Fin 54"
    by (simp add: calculateCLV_nth initialData_def yearRow_def Let_def readProb_def orZero_def)
  note w = degenerate_rate_propagates[OF h, of "\<lambda>a. []"]
  from w t(1) have "discountFactor (yearlyBreakdown (calculateCLV (\<lambda>a. []) ?st) ! 1) = Fin 0"
    and "presentValue (yearlyBreakdown (calculateCLV (\<lambda>a. []) ?st) ! 1) =
        (case adjustedMargin (yearlyBreakdown (calculateCLV (\<lambda>a. []) ?st) ! 1) of
           Fin a \<Rightarrow> (if a = 0 then NaN else if 0 < a then PInf else NInf)
         | PInf \<Rightarrow> PInf | NInf \<Rightarrow> NInf | NaN \<Rightarrow> NaN)"
    by blast+
  moreover from w t(2) have "\<not> finite_num (totalPV (calculateCLV (\<lambda>a. []) ?st))"
    and "\<not> finite_num (clv (calculateCLV (\<lambda>a. []) ?st))"
    by blast+
  ultimately show ?thesis using h am by simp
qed

text \<open>
  As claim C6 is worded, every present value in the export is formatted to 2 decimals.
  With the discount rate -100, which the rate field accepts
  (\<open>degenerate_reachable\<close> below), the present value of year 1 for the default
  parameters is infinite, and its cell in the export is the text \<open>Infinity\<close>, which
  is not a number formatted to 2 decimals.
\<close>

theorem export_decimals_counterexample:
  "csvTable (\<lambda>a. [])
     (calculateCLV (\<lambda>a. []) (initialState\<lparr>data := initialData\<lparr>discountRate := Fin (- 100)\<rparr>\<rparr>))
     ! 2 ! 5 = ''Infinity'' \<and>
   \<not> fixed_format 2
     (csvTable (\<lambda>a. [])
        (calculateCLV (\<lambda>a. []) (initialState\<lparr>data := initialData\<lparr>discountRate := Fin (- 100)\<rparr>\<rparr>))
        ! 2 ! 5)"
proof -
  let ?ts = "\<lambda>a::real. []::string"
  let ?st = "calculateCLV ?ts (initialState\<lparr>data := initialData\<lparr>discountRate := Fin (- 100)\<rparr>\<rparr>)"
  have len: "(1::nat) < length (yearlyBreakdown ?st)"
    by (simp add: calculateCLV_length initialData_def)
  have pv: "presentValue (yearlyBreakdown ?st ! 1) = PInf"
    by (simp add: calculateCLV_nth initialData_def yearRow_def Let_def readProb_def orZero_def)
  have "csvTable ?ts ?st ! (1 + 1) = csvDataRow ?ts (yearlyBreakdown ?st ! 1)"
    using len by (rule csvTable_data_row)
  then have "csvTable ?ts ?st ! 2 ! 5 = toFixed ?ts (presentValue (yearlyBreakdown ?st ! 1)) 2"
    by (simp only: one_add_one) (simp add: csvDataRow_def)
  then have cell: "csvTable ?ts ?st ! 2 ! 5 = ''Infinity''"
    by (simp only: pv toFixed_not_finite)
  have "\<not> fixed_format 2 ''Infinity''"
    by (simp add: fixed_format_def is_digit_def)
  with cell show ?thesis by simp
qed

section \<open>The default parameters\<close>

text \<open>The present values and the totals for the initial parameters, exactly.\<close>

lemma default_rows:
  "map presentValue (yearlyBreakdown (calculateCLV toStr initialState)) =
     [Fin 60, Fin (540 / 11), Fin (5100 / 121), Fin (51000 / 1331),
      Fin (360000 / 14641), Fin (1800000 / 161051)]"
  by (simp add: calculateCLV_rows initialState_def initialData_def upt_rec[of 0]
     upt_rec[of "Suc _"] yearRow_def Let_def readProb_def orZero_def power_Suc)

lemma default_totals:
  "totalPV (calculateCLV toStr initialState) = Fin (36288300 / 161051)"
  "clv (calculateCLV toStr initialState) = Fin (35321994 / 161051)"
proof -
  show tot: "totalPV (calculateCLV toStr initialState) = Fin (36288300 / 161051)"
    by (simp add: calculateCLV_totalPV default_rows)
  show "clv (calculateCLV toStr initialState) = Fin (35321994 / 161051)"
    by (simp add: calculateCLV_clv tot num_sub_def)
qed

text \<open>
  Claim C8. For the default parameters (margin 60, probabilities 100, 90, 85, 85, 60,
  30, acquisition cost 6, discount rate 10, horizon 6) \<open>calculateCLV\<close> returns six
  rows whose present values are within half a unit of the last printed decimal of
  60, 49.09, 42.15, 38.32, 24.59 and 11.18, a \<open>totalPV\<close> within 0.005 of 225.32 and
  a \<open>clv\<close> within 0.005 of 219.32.
\<close>

theorem default_scenario:
  "data initialState =
     \<lparr>margin = Fin 60,
      repeatProbabilities = [Fin 100, Fin 90, Fin 85, Fin 85, Fin 60, Fin 30],
      acquisitionCost = Fin 6, discountRate = Fin 10, timeHorizon = 6\<rparr> \<and>
   length (yearlyBreakdown (calculateCLV toStr initialState)) = 6 \<and>
   near (presentValue (yearlyBreakdown (calculateCLV toStr initialState) ! 0)) 60 (1 / 2) \<and>
   near (presentValue (yearlyBreakdown (calculateCLV toStr initialState) ! 1)) 49.09 0.005 \<and>
   near (presentValue (yearlyBreakdown (calculateCLV toStr initialState) ! 2)) 42.15 0.005 \<and>
   near (presentValue (yearlyBreakdown (calculateCLV toStr initialState) ! 3)) 38.32 0.005 \<and>
   near (presentValue (yearlyBreakdown (calculateCLV toStr initialState) ! 4)) 24.59 0.005 \<and>
   near (presentValue (yearlyBreakdown (calculateCLV toStr initialState) ! 5)) 11.18 0.005 \<and>
   near (totalPV (calculateCLV toStr initialState)) 225.32 0.005 \<and>
   near (clv (calculateCLV toStr initialState)) 219.32 0.005"
proof -
  let ?rows = "yearlyBreakdown (calculateCLV toStr initialState)"
  have len: "length ?rows = 6"
    by (simp add: calculateCLV_length)
  have "presentValue (?rows ! i) = map presentValue ?rows ! i" if "i < 6" for i
    using that len by simp
  then have pv: "presentValue (?rows ! i) =
      [Fin 60, Fin (540 / 11), Fin (5100 / 121), Fin (51000 / 1331),
       Fin (360000 / 14641), Fin (1800000 / 161051)] ! i" if "i < 6" for i
    using that by (simp only: default_rows)
  have d0: "data initialState =
     \<lparr>margin = Fin 60,
      repeatProbabilities = [Fin 100, Fin 90, Fin 85, Fin 85, Fin 60, Fin 30],
      acquisitionCost = Fin 6, discountRate = Fin 10, timeHorizon = 6\<rparr>"
    by (simp add: initialState_def initialData_def)
  show ?thesis
    by (simp add: len pv default_totals near_def d0)
qed

text \<open>
  The same in rounded arithmetic. The exact present value is one of the values that
  \<open>fl_presentValue\<close> admits, and it is the one of the model.
\<close>

lemma rounds_exact: "0 \<le> e \<Longrightarrow> rounds e x x"
  by (simp add: rounds_def)

lemma fl_presentValue_exact:
  "0 \<le> e \<Longrightarrow> fl_presentValue e m p r t (m * (p / 100) / (1 + r / 100) ^ t)"
  unfolding fl_presentValue_def
  by (intro exI[of _ "p / 100"] exI[of _ "m * (p / 100)"] exI[of _ "r / 100"]
      exI[of _ "1 + r / 100"] exI[of _ "(1 + r / 100) ^ t"] conjI rounds_exact)

lemma yearRow_finite:
  assumes "margin d = Fin m" and "discountRate d = Fin r"
    and "t < length (repeatProbabilities d)" and "repeatProbabilities d ! t = Fin p"
    and "(1 + r / 100) ^ t \<noteq> 0"
  shows "presentValue (yearRow toStr d t) = Fin (m * (p / 100) / (1 + r / 100) ^ t)"
  using assms by (cases t) (simp_all add: yearRow_def Let_def readProb_def orZero_def)

text \<open>
  Whatever the roundings are, with a relative error of at most \<open>10^-9\<close> each (a
  binary64 operation stays within \<open>2^-53\<close>, about \<open>1.1 * 10^-16\<close>), the values for
  the default parameters are within the tolerances of claim C8.
\<close>

lemma rounds_interval:
  assumes "rounds e x y" and "0 \<le> e" and "e \<le> u" and "0 \<le> x"
  shows "x * (1 - u) \<le> y \<and> y \<le> x * (1 + u)"
proof -
  from assms(1,4) have "\<bar>y - x\<bar> \<le> e * x" by (simp add: rounds_def)
  moreover from assms(3,4) have "e * x \<le> u * x" by (simp add: mult_right_mono)
  ultimately have "\<bar>y - x\<bar> \<le> u * x" by linarith
  then show ?thesis by (simp add: algebra_simps abs_le_iff)
qed

text \<open>Lower and upper bound of a rounded value from bounds of the exact one.\<close>

lemma rounds_enclosure:
  assumes r: "rounds e x y" and e: "0 \<le> e" "e \<le> u" "u \<le> 1"
    and x: "0 \<le> lo" "lo \<le> x" "x \<le> hi"
  shows "lo * (1 - u) \<le> y \<and> y \<le> hi * (1 + u)"
proof -
  from x have x0: "0 \<le> x" by linarith
  from rounds_interval[OF r e(1,2) x0] have y: "x * (1 - u) \<le> y" "y \<le> x * (1 + u)"
    by simp_all
  from e have "0 \<le> 1 - u" "0 \<le> 1 + u" by linarith+
  with x have "lo * (1 - u) \<le> x * (1 - u)" "x * (1 + u) \<le> hi * (1 + u)"
    by (simp_all add: mult_right_mono)
  with y show ?thesis by linarith
qed


lemma fl_presentValue_enclosure:
  assumes fl: "fl_presentValue e m p r t v"
    and e: "0 \<le> e" "e \<le> u" "u < 1"
    and m: "0 \<le> m" and p: "0 \<le> p" and r: "0 \<le> r"
  shows "m * (p / 100 * (1 - u)) * (1 - u)
           / (((1 + r / 100 * (1 + u)) * (1 + u)) ^ t * (1 + u)) * (1 - u) \<le> v \<and>
         v \<le> m * (p / 100 * (1 + u)) * (1 + u)
           / (((1 + r / 100 * (1 - u)) * (1 - u)) ^ t * (1 - u)) * (1 + u)"
proof -
  from fl obtain q a r1 b d where
    q: "rounds e (p / 100) q" and a: "rounds e (m * q) a" and
    r1: "rounds e (r / 100) r1" and b: "rounds e (1 + r1) b" and
    d: "rounds e (b ^ t) d" and v: "rounds e (a / d) v"
    by (auto simp: fl_presentValue_def)
  from e have u: "0 \<le> u" "u \<le> 1" "0 < 1 - u" "0 < 1 + u" by linarith+
  have p0: "0 \<le> p / 100" using p by simp
  have qb: "p / 100 * (1 - u) \<le> q" "q \<le> p / 100 * (1 + u)"
    using rounds_interval[OF q e(1,2) p0] by simp_all
  have ql0: "0 \<le> p / 100 * (1 - u)" using p0 u by simp
  have mq: "m * (p / 100 * (1 - u)) \<le> m * q" "m * q \<le> m * (p / 100 * (1 + u))"
    by (rule mult_left_mono[OF qb(1) m], rule mult_left_mono[OF qb(2) m])
  have mq0: "0 \<le> m * (p / 100 * (1 - u))" using m ql0 by simp
  have ab: "m * (p / 100 * (1 - u)) * (1 - u) \<le> a" "a \<le> m * (p / 100 * (1 + u)) * (1 + u)"
    using rounds_enclosure[OF a e(1,2) u(2) mq0 mq] by simp_all
  have al0: "0 \<le> m * (p / 100 * (1 - u)) * (1 - u)" using mq0 u by simp
  then have a0: "0 \<le> a" using ab by linarith
  have r0: "0 \<le> r / 100" using r by simp
  have r1b: "r / 100 * (1 - u) \<le> r1" "r1 \<le> r / 100 * (1 + u)"
    using rounds_interval[OF r1 e(1,2) r0] by simp_all
  have rl0: "0 \<le> r / 100 * (1 - u)" using r0 u by simp
  have s: "0 \<le> 1 + r / 100 * (1 - u)" "1 + r / 100 * (1 - u) \<le> 1 + r1"
    "1 + r1 \<le> 1 + r / 100 * (1 + u)"
    using rl0 r1b by simp_all
  have bb: "(1 + r / 100 * (1 - u)) * (1 - u) \<le> b" "b \<le> (1 + r / 100 * (1 + u)) * (1 + u)"
    using rounds_enclosure[OF b e(1,2) u(2) s] by simp_all
  have bl0: "0 < (1 + r / 100 * (1 - u)) * (1 - u)" using rl0 u by simp
  then have b0: "0 \<le> b" using bb by linarith
  have pw: "((1 + r / 100 * (1 - u)) * (1 - u)) ^ t \<le> b ^ t"
    "b ^ t \<le> ((1 + r / 100 * (1 + u)) * (1 + u)) ^ t"
    using bb bl0 b0 by (simp_all add: power_mono)
  have pl0: "0 < ((1 + r / 100 * (1 - u)) * (1 - u)) ^ t" using bl0 by simp
  have db: "((1 + r / 100 * (1 - u)) * (1 - u)) ^ t * (1 - u) \<le> d"
    "d \<le> ((1 + r / 100 * (1 + u)) * (1 + u)) ^ t * (1 + u)"
    using rounds_enclosure[OF d e(1,2) u(2) less_imp_le[OF pl0] pw] by simp_all
  have dl0: "0 < ((1 + r / 100 * (1 - u)) * (1 - u)) ^ t * (1 - u)" using pl0 u by simp
  then have d0: "0 < d" using db by linarith
  have lo: "m * (p / 100 * (1 - u)) * (1 - u)
      / (((1 + r / 100 * (1 + u)) * (1 + u)) ^ t * (1 + u)) \<le> a / d"
    using a0 ab(1) d0 db(2) by (rule frac_le)
  have hi: "a / d \<le> m * (p / 100 * (1 + u)) * (1 + u)
      / (((1 + r / 100 * (1 - u)) * (1 - u)) ^ t * (1 - u))"
    using order_trans[OF a0 ab(2)] ab(2) dl0 db(1) by (rule frac_le)
  have dh0: "0 < ((1 + r / 100 * (1 + u)) * (1 + u)) ^ t * (1 + u)"
    using d0 db(2) by linarith
  have lo0: "0 \<le> m * (p / 100 * (1 - u)) * (1 - u)
      / (((1 + r / 100 * (1 + u)) * (1 + u)) ^ t * (1 + u))"
    using al0 dh0 by simp
  show ?thesis
    using rounds_enclosure[OF v e(1,2) u(2) lo0 lo hi] by simp
qed


lemma near_interval:
  fixes v c tol lo hi :: real
  assumes "lo \<le> v" and "v \<le> hi" and "c - tol \<le> lo" and "hi \<le> c + tol"
  shows "\<bar>v - c\<bar> \<le> tol"
  using assms by linarith

lemma fl_default_row:
  assumes "fl_presentValue e 60 p 10 t v" and "0 \<le> e" and "e \<le> 1 / 10 ^ 9" and "0 \<le> p"
  shows "60 * (p / 100 * (999999999 / 1000000000)) * (999999999 / 1000000000)
           / (((1 + 1 / 10 * (1000000001 / 1000000000)) * (1000000001 / 1000000000)) ^ t
                * (1000000001 / 1000000000)) * (999999999 / 1000000000) \<le> v \<and>
         v \<le> 60 * (p / 100 * (1000000001 / 1000000000)) * (1000000001 / 1000000000)
           / (((1 + 1 / 10 * (999999999 / 1000000000)) * (999999999 / 1000000000)) ^ t
                * (999999999 / 1000000000)) * (1000000001 / 1000000000)"
  using fl_presentValue_enclosure[OF assms(1,2,3)] assms(4) by simp

lemma default_scenario_rounded:
  assumes e: "0 \<le> e" "e \<le> 1 / 10 ^ 9"
    and v0: "fl_presentValue e 60 100 10 0 v0"
    and v1: "fl_presentValue e 60 90 10 1 v1"
    and v2: "fl_presentValue e 60 85 10 2 v2"
    and v3: "fl_presentValue e 60 85 10 3 v3"
    and v4: "fl_presentValue e 60 60 10 4 v4"
    and v5: "fl_presentValue e 60 30 10 5 v5"
    and tot: "fl_sum e 0 [v0, v1, v2, v3, v4, v5] tot"
    and c: "rounds e (tot - 6) c"
  shows "\<bar>v0 - 60\<bar> \<le> 1 / 2 \<and> \<bar>v1 - 49.09\<bar> \<le> 0.005 \<and> \<bar>v2 - 42.15\<bar> \<le> 0.005 \<and>
    \<bar>v3 - 38.32\<bar> \<le> 0.005 \<and> \<bar>v4 - 24.59\<bar> \<le> 0.005 \<and> \<bar>v5 - 11.18\<bar> \<le> 0.005 \<and>
    \<bar>tot - 225.32\<bar> \<le> 0.005 \<and> \<bar>c - 219.32\<bar> \<le> 0.005"
proof -
  have b0: "59.9999 \<le> v0 \<and> v0 \<le> 60.0001"
    using fl_default_row[OF v0 e] by simp
  have b1: "49.0909 \<le> v1 \<and> v1 \<le> 49.0910"
    using fl_default_row[OF v1 e] by simp
  have b2: "42.1487 \<le> v2 \<and> v2 \<le> 42.1488"
    using fl_default_row[OF v2 e] by (simp add: power2_eq_square)
  have b3: "38.3170 \<le> v3 \<and> v3 \<le> 38.3171"
    using fl_default_row[OF v3 e] by (simp add: power3_eq_cube)
  have b4: "24.5884 \<le> v4 \<and> v4 \<le> 24.5885"
    using fl_default_row[OF v4 e] by (simp add: power4_eq_xxxx)
  have b5: "11.1765 \<le> v5 \<and> v5 \<le> 11.1766"
    using fl_default_row[OF v5 e] by (simp add: eval_nat_numeral)
  from tot obtain s1 s2 s3 s4 s5 where
    s1: "rounds e (0 + v0) s1" and s2: "rounds e (s1 + v1) s2" and
    s3: "rounds e (s2 + v2) s3" and s4: "rounds e (s3 + v3) s4" and
    s5: "rounds e (s4 + v4) s5" and s6: "rounds e (s5 + v5) tot"
    by auto
  have u: "(1 / 10 ^ 9 :: real) \<le> 1" by simp
  have c1: "59.9998 \<le> s1 \<and> s1 \<le> 60.0002"
    using rounds_enclosure[OF s1 e u, of "59.9999" "60.0001"] b0 by simp
  have c2: "109.0906 \<le> s2 \<and> s2 \<le> 109.0913"
    using rounds_enclosure[OF s2 e u, of "109.0907" "109.0912"] c1 b1 by simp
  have c3: "151.2392 \<le> s3 \<and> s3 \<le> 151.2402"
    using rounds_enclosure[OF s3 e u, of "151.2393" "151.2401"] c2 b2 by simp
  have c4: "189.5561 \<le> s4 \<and> s4 \<le> 189.5574"
    using rounds_enclosure[OF s4 e u, of "189.5562" "189.5573"] c3 b3 by simp
  have c5: "214.1444 \<le> s5 \<and> s5 \<le> 214.1460"
    using rounds_enclosure[OF s5 e u, of "214.1445" "214.1459"] c4 b4 by simp
  have c6: "225.3208 \<le> tot \<and> tot \<le> 225.3227"
    using rounds_enclosure[OF s6 e u, of "225.3209" "225.3226"] c5 b5 by simp
  have c7: "219.3207 \<le> c \<and> c \<le> 219.3228"
    using rounds_enclosure[OF c e u, of "219.3208" "219.3227"] c6 by simp
  have "\<bar>v0 - 60\<bar> \<le> 1 / 2"
    by (rule near_interval[of "59.9999" _ "60.0001"]) (use b0 in simp_all)
  moreover have "\<bar>v1 - 49.09\<bar> \<le> 0.005"
    by (rule near_interval[of "49.0909" _ "49.0910"]) (use b1 in simp_all)
  moreover have "\<bar>v2 - 42.15\<bar> \<le> 0.005"
    by (rule near_interval[of "42.1487" _ "42.1488"]) (use b2 in simp_all)
  moreover have "\<bar>v3 - 38.32\<bar> \<le> 0.005"
    by (rule near_interval[of "38.3170" _ "38.3171"]) (use b3 in simp_all)
  moreover have "\<bar>v4 - 24.59\<bar> \<le> 0.005"
    by (rule near_interval[of "24.5884" _ "24.5885"]) (use b4 in simp_all)
  moreover have "\<bar>v5 - 11.18\<bar> \<le> 0.005"
    by (rule near_interval[of "11.1765" _ "11.1766"]) (use b5 in simp_all)
  moreover have "\<bar>tot - 225.32\<bar> \<le> 0.005"
    by (rule near_interval[of "225.3208" _ "225.3227"]) (use c6 in simp_all)
  moreover have "\<bar>c - 219.32\<bar> \<le> 0.005"
    by (rule near_interval[of "219.3207" _ "219.3228"]) (use c7 in simp_all)
  ultimately show ?thesis by blast
qed

text \<open>
  The table exported for the default parameters, without its last column (the
  calculation text holds \<open>toStr\<close> of the parameters), and the three totals.
\<close>

lemma default_numbers:
  "map (\<lambda>r. (year r, rowMargin r, repeatProb r, adjustedMargin r, discountFactor r,
            presentValue r))
     (yearlyBreakdown (calculateCLV toStr initialState)) =
   [(0, Fin 60, Fin 100, Fin 60, Fin 1, Fin 60),
    (1, Fin 60, Fin 90, Fin 54, Fin (11 / 10), Fin (540 / 11)),
    (2, Fin 60, Fin 85, Fin 51, Fin (121 / 100), Fin (5100 / 121)),
    (3, Fin 60, Fin 85, Fin 51, Fin (1331 / 1000), Fin (51000 / 1331)),
    (4, Fin 60, Fin 60, Fin 36, Fin (14641 / 10000), Fin (360000 / 14641)),
    (5, Fin 60, Fin 30, Fin 18, Fin (161051 / 100000), Fin (1800000 / 161051))]"
  by (simp add: calculateCLV_rows initialState_def initialData_def upt_rec[of 0]
      upt_rec[of "Suc _"] yearRow_def Let_def readProb_def orZero_def power_Suc)

lemma default_table:
  "map (take 6) (csvTable toStr (calculateCLV toStr initialState)) =
     [[''Year'', ''Margin ($)'', ''Repeat Prob (%)'', ''Adjusted Margin ($)'',
       ''Discount Factor'', ''Present Value ($)''],
      [''Acquisition'', ''60.00'', ''100'', ''60.00'', ''1.0000'', ''60.00''],
      [''Year 1'', ''60.00'', ''90'', ''54.00'', ''1.1000'', ''49.09''],
      [''Year 2'', ''60.00'', ''85'', ''51.00'', ''1.2100'', ''42.15''],
      [''Year 3'', ''60.00'', ''85'', ''51.00'', ''1.3310'', ''38.32''],
      [''Year 4'', ''60.00'', ''60'', ''36.00'', ''1.4641'', ''24.59''],
      [''Year 5'', ''60.00'', ''30'', ''18.00'', ''1.6105'', ''11.18''],
      ['''', '''', '''', '''', '''', ''Total PV:''],
      ['''', '''', '''', '''', '''', ''Acquisition Cost:''],
      ['''', '''', '''', '''', '''', ''Final CLV:'']]"
proof -
  have "map (take 6 \<circ> csvDataRow toStr) (yearlyBreakdown (calculateCLV toStr initialState)) =
      map (\<lambda>(y, m, p, a, d, v). [yearLabel y, toFixed toStr m 2, toFixed toStr p 0,
             toFixed toStr a 2, toFixed toStr d 4, toFixed toStr v 2])
        (map (\<lambda>r. (year r, rowMargin r, repeatProb r, adjustedMargin r, discountFactor r,
            presentValue r)) (yearlyBreakdown (calculateCLV toStr initialState)))"
    by (simp add: csvDataRow_def)
  also have "\<dots> =
     [[''Acquisition'', ''60.00'', ''100'', ''60.00'', ''1.0000'', ''60.00''],
      [''Year 1'', ''60.00'', ''90'', ''54.00'', ''1.1000'', ''49.09''],
      [''Year 2'', ''60.00'', ''85'', ''51.00'', ''1.2100'', ''42.15''],
      [''Year 3'', ''60.00'', ''85'', ''51.00'', ''1.3310'', ''38.32''],
      [''Year 4'', ''60.00'', ''60'', ''36.00'', ''1.4641'', ''24.59''],
      [''Year 5'', ''60.00'', ''30'', ''18.00'', ''1.6105'', ''11.18'']]"
    unfolding default_numbers
    by (simp add: yearLabel_def toFixed_def fixed_digits_def Let_def digits.simps digit_def)
  finally show ?thesis
    by (simp add: csvTable_def csvHeader_def)
qed

lemma default_summary:
  "map last (drop 7 (csvTable toStr (calculateCLV toStr initialState))) =
     [''225.32'', ''-6.00'', ''219.32'']"
proof -
  have len: "length (yearlyBreakdown (calculateCLV toStr initialState)) = 6"
    by (simp add: calculateCLV_length)
  have acq: "acquisitionCost (data (calculateCLV toStr initialState)) = Fin 6"
    by (simp add: calculateCLV_data)
  show ?thesis
    by (simp add: csvTable_def len default_totals acq toFixed_def fixed_digits_def Let_def
        digits.simps digit_def)
qed

text \<open>
  The statement about the export, applied to the default parameters: the first line
  of the text, the header, the row of year 1 and the three totals.
\<close>

lemma default_row_1:
  "year (yearlyBreakdown (calculateCLV toStr initialState) ! 1) = 1"
  "rowMargin (yearlyBreakdown (calculateCLV toStr initialState) ! 1) = Fin 60"
  "repeatProb (yearlyBreakdown (calculateCLV toStr initialState) ! 1) = Fin 90"
  "adjustedMargin (yearlyBreakdown (calculateCLV toStr initialState) ! 1) = Fin 54"
  "discountFactor (yearlyBreakdown (calculateCLV toStr initialState) ! 1) = Fin (11 / 10)"
  "presentValue (yearlyBreakdown (calculateCLV toStr initialState) ! 1) = Fin (540 / 11)"
  by (simp_all add: calculateCLV_nth yearRow_def Let_def readProb_def orZero_def)

theorem exportResults_spec_witness:
  "take 98 (csvContent (\<lambda>a. []) (calculateCLV (\<lambda>a. []) initialState)) =
     ''Year,Margin ($),Repeat Prob (%),Adjusted Margin ($),Discount Factor,Present Value ($),Calculation''
     @ [CHR 0x0A] \<and>
   csvTable (\<lambda>a. []) (calculateCLV (\<lambda>a. []) initialState) ! 0 =
     [''Year'', ''Margin ($)'', ''Repeat Prob (%)'', ''Adjusted Margin ($)'',
      ''Discount Factor'', ''Present Value ($)'', ''Calculation''] \<and>
   length (csvTable (\<lambda>a. []) (calculateCLV (\<lambda>a. []) initialState)) = 10 \<and>
   hd (csvTable (\<lambda>a. []) (calculateCLV (\<lambda>a. []) initialState) ! 1) = ''Acquisition'' \<and>
   length (csvTable (\<lambda>a. []) (calculateCLV (\<lambda>a. []) initialState) ! 2) = 7 \<and>
   csvTable (\<lambda>a. []) (calculateCLV (\<lambda>a. []) initialState) ! 2 ! 0 = ''Year 1'' \<and>
   csvTable (\<lambda>a. []) (calculateCLV (\<lambda>a. []) initialState) ! 2 ! 1 = ''60.00'' \<and>
   csvTable (\<lambda>a. []) (calculateCLV (\<lambda>a. []) initialState) ! 2 ! 2 = ''90'' \<and>
   csvTable (\<lambda>a. []) (calculateCLV (\<lambda>a. []) initialState) ! 2 ! 3 = ''54.00'' \<and>
   csvTable (\<lambda>a. []) (calculateCLV (\<lambda>a. []) initialState) ! 2 ! 4 = ''1.1000'' \<and>
   csvTable (\<lambda>a. []) (calculateCLV (\<lambda>a. []) initialState) ! 2 ! 5 = ''49.09'' \<and>
   fixed_format 2 (csvTable (\<lambda>a. []) (calculateCLV (\<lambda>a. []) initialState) ! 2 ! 5) \<and>
   drop 7 (csvTable (\<lambda>a. []) (calculateCLV (\<lambda>a. []) initialState)) =
     [['''', '''', '''', '''', '''', ''Total PV:'', ''225.32''],
      ['''', '''', '''', '''', '''', ''Acquisition Cost:'', ''-6.00''],
      ['''', '''', '''', '''', '''', ''Final CLV:'', ''219.32'']]"
proof -
  let ?ts = "\<lambda>a::real. []::string"
  let ?st = "calculateCLV ?ts initialState"
  have len: "length (yearlyBreakdown ?st) = 6"
    by (simp add: calculateCLV_length)
  note w = exportResults_spec[of ?ts ?st]
  note v = exportResults_spec[of ?ts initialState]
  from w have "csvContent ?ts ?st =
     join [CHR 0x0A]
       ([''Year,Margin ($),Repeat Prob (%),Adjusted Margin ($),Discount Factor,Present Value ($),Calculation'']
        @ map (\<lambda>row.
            (if year row = 0 then ''Acquisition'' else ''Year '' @ digits (year row))
            @ '','' @ toFixed ?ts (rowMargin row) 2
            @ '','' @ toFixed ?ts (repeatProb row) 0
            @ '','' @ toFixed ?ts (adjustedMargin row) 2
            @ '','' @ toFixed ?ts (discountFactor row) 4
            @ '','' @ toFixed ?ts (presentValue row) 2
            @ '','' @ calculation row) (yearlyBreakdown ?st)
        @ ['',,,,,Total PV:,'' @ toFixed ?ts (totalPV ?st) 2,
           '',,,,,Acquisition Cost:,'' @ toFixed ?ts (num_neg (acquisitionCost (data ?st))) 2,
           '',,,,,Final CLV:,'' @ toFixed ?ts (clv ?st) 2])"
    by (rule conjunct2[THEN conjunct1])
  then have c0: "take 98 (csvContent ?ts ?st) =
     ''Year,Margin ($),Repeat Prob (%),Adjusted Margin ($),Discount Factor,Present Value ($),Calculation''
     @ [CHR 0x0A]"
    by (simp add: join_Cons)
  from w have c1: "csvTable ?ts ?st ! 0 =
     [''Year'', ''Margin ($)'', ''Repeat Prob (%)'', ''Adjusted Margin ($)'',
      ''Discount Factor'', ''Present Value ($)'', ''Calculation'']"
    by blast
  from w have "length (csvTable ?ts ?st) = length (yearlyBreakdown ?st) + 4"
    by blast
  with len have c2: "length (csvTable ?ts ?st) = 10"
    by simp
  have "(0::nat) < nat (timeHorizon (data initialState))" by simp
  with v have "hd (csvTable ?ts ?st ! (0 + 1)) =
      (if (0::nat) = 0 then ''Acquisition'' else ''Year '' @ digits 0)"
    by blast
  then have c3: "hd (csvTable ?ts ?st ! 1) = ''Acquisition''"
    by simp
  have "1 < length (yearlyBreakdown ?st)" using len by simp
  with w have row: "length (csvTable ?ts ?st ! (1 + 1)) = 7 \<and>
      csvTable ?ts ?st ! (1 + 1) ! 0 =
        (if year (yearlyBreakdown ?st ! 1) = 0 then ''Acquisition''
         else ''Year '' @ digits (year (yearlyBreakdown ?st ! 1))) \<and>
      csvTable ?ts ?st ! (1 + 1) ! 1 = toFixed ?ts (rowMargin (yearlyBreakdown ?st ! 1)) 2 \<and>
      csvTable ?ts ?st ! (1 + 1) ! 2 = toFixed ?ts (repeatProb (yearlyBreakdown ?st ! 1)) 0 \<and>
      csvTable ?ts ?st ! (1 + 1) ! 3 = toFixed ?ts (adjustedMargin (yearlyBreakdown ?st ! 1)) 2 \<and>
      csvTable ?ts ?st ! (1 + 1) ! 4 = toFixed ?ts (discountFactor (yearlyBreakdown ?st ! 1)) 4 \<and>
      csvTable ?ts ?st ! (1 + 1) ! 5 = toFixed ?ts (presentValue (yearlyBreakdown ?st ! 1)) 2 \<and>
      shows_num ?ts (presentValue (yearlyBreakdown ?st ! 1)) 2 (csvTable ?ts ?st ! (1 + 1) ! 5)"
    by blast
  from row have "shows_num ?ts (presentValue (yearlyBreakdown ?st ! 1)) 2
      (csvTable ?ts ?st ! (1 + 1) ! 5)"
    by blast
  then have "shows_num ?ts (Fin (540 / 11)) 2 (csvTable ?ts ?st ! 2 ! 5)"
    by (simp only: default_row_1 one_add_one)
  then have c5: "fixed_format 2 (csvTable ?ts ?st ! 2 ! 5)"
    by (simp add: shows_num_def)
  from row have "length (csvTable ?ts ?st ! (1 + 1)) = 7 \<and>
      csvTable ?ts ?st ! (1 + 1) ! 0 =
        (if year (yearlyBreakdown ?st ! 1) = 0 then ''Acquisition''
         else ''Year '' @ digits (year (yearlyBreakdown ?st ! 1))) \<and>
      csvTable ?ts ?st ! (1 + 1) ! 1 = toFixed ?ts (rowMargin (yearlyBreakdown ?st ! 1)) 2 \<and>
      csvTable ?ts ?st ! (1 + 1) ! 2 = toFixed ?ts (repeatProb (yearlyBreakdown ?st ! 1)) 0 \<and>
      csvTable ?ts ?st ! (1 + 1) ! 3 = toFixed ?ts (adjustedMargin (yearlyBreakdown ?st ! 1)) 2 \<and>
      csvTable ?ts ?st ! (1 + 1) ! 4 = toFixed ?ts (discountFactor (yearlyBreakdown ?st ! 1)) 4 \<and>
      csvTable ?ts ?st ! (1 + 1) ! 5 = toFixed ?ts (presentValue (yearlyBreakdown ?st ! 1)) 2"
    by blast
  then have "length (csvTable ?ts ?st ! 2) = 7 \<and>
      csvTable ?ts ?st ! 2 ! 0 = ''Year '' @ digits 1 \<and>
      csvTable ?ts ?st ! 2 ! 1 = toFixed ?ts (Fin 60) 2 \<and>
      csvTable ?ts ?st ! 2 ! 2 = toFixed ?ts (Fin 90) 0 \<and>
      csvTable ?ts ?st ! 2 ! 3 = toFixed ?ts (Fin 54) 2 \<and>
      csvTable ?ts ?st ! 2 ! 4 = toFixed ?ts (Fin (11 / 10)) 4 \<and>
      csvTable ?ts ?st ! 2 ! 5 = toFixed ?ts (Fin (540 / 11)) 2"
    by (simp only: default_row_1 one_add_one) simp
  then have c4: "length (csvTable ?ts ?st ! 2) = 7 \<and>
      csvTable ?ts ?st ! 2 ! 0 = ''Year 1'' \<and>
      csvTable ?ts ?st ! 2 ! 1 = ''60.00'' \<and>
      csvTable ?ts ?st ! 2 ! 2 = ''90'' \<and>
      csvTable ?ts ?st ! 2 ! 3 = ''54.00'' \<and>
      csvTable ?ts ?st ! 2 ! 4 = ''1.1000'' \<and>
      csvTable ?ts ?st ! 2 ! 5 = ''49.09''"
    by (simp add: toFixed_def fixed_digits_def Let_def digits.simps digit_def)
  from w have "drop (length (yearlyBreakdown ?st) + 1) (csvTable ?ts ?st) =
     [['''', '''', '''', '''', '''', ''Total PV:'', toFixed ?ts (totalPV ?st) 2],
      ['''', '''', '''', '''', '''', ''Acquisition Cost:'',
         toFixed ?ts (num_neg (acquisitionCost (data ?st))) 2],
      ['''', '''', '''', '''', '''', ''Final CLV:'', toFixed ?ts (clv ?st) 2]]"
    by blast
  then have "drop 7 (csvTable ?ts ?st) =
     [['''', '''', '''', '''', '''', ''Total PV:'', toFixed ?ts (Fin (36288300 / 161051)) 2],
      ['''', '''', '''', '''', '''', ''Acquisition Cost:'', toFixed ?ts (Fin (- 6)) 2],
      ['''', '''', '''', '''', '''', ''Final CLV:'', toFixed ?ts (Fin (35321994 / 161051)) 2]]"
    by (simp add: len default_totals calculateCLV_data)
  then have c6: "drop 7 (csvTable ?ts ?st) =
     [['''', '''', '''', '''', '''', ''Total PV:'', ''225.32''],
      ['''', '''', '''', '''', '''', ''Acquisition Cost:'', ''-6.00''],
      ['''', '''', '''', '''', '''', ''Final CLV:'', ''219.32'']]"
    by (simp add: toFixed_def fixed_digits_def Let_def digits.simps digit_def)
  from c0 c1 c2 c3 c4 c5 c6 show ?thesis by blast
qed

section \<open>Period 0 and the acquisition cost\<close>

text \<open>
  Claim C9. With a horizon of at least 1 and any discount rate, the first row that
  \<open>calculateCLV\<close> returns has the discount factor 1 and a present value equal to its
  adjusted margin.
\<close>

theorem first_row_undiscounted:
  assumes "1 \<le> timeHorizon (data st)"
  shows "yearlyBreakdown (calculateCLV toStr st) \<noteq> [] \<and>
    discountFactor (hd (yearlyBreakdown (calculateCLV toStr st))) = Fin 1 \<and>
    presentValue (hd (yearlyBreakdown (calculateCLV toStr st))) =
      adjustedMargin (hd (yearlyBreakdown (calculateCLV toStr st)))"
proof -
  from assms have "0 < nat (timeHorizon (data st))" by simp
  then have "[0..<nat (timeHorizon (data st))] = 0 # [Suc 0..<nat (timeHorizon (data st))]"
    by (simp add: upt_conv_Cons)
  then show ?thesis
    by (simp add: calculateCLV_rows yearRow_def Let_def num_div_one)
qed

theorem first_row_undiscounted_witness:
  "1 \<le> timeHorizon (data initialState) \<and>
   yearlyBreakdown (calculateCLV (\<lambda>a. []) initialState) \<noteq> [] \<and>
   discountFactor (hd (yearlyBreakdown (calculateCLV (\<lambda>a. []) initialState))) = Fin 1 \<and>
   presentValue (hd (yearlyBreakdown (calculateCLV (\<lambda>a. []) initialState))) =
     adjustedMargin (hd (yearlyBreakdown (calculateCLV (\<lambda>a. []) initialState)))"
proof -
  have h: "1 \<le> timeHorizon (data initialState)" by simp
  from first_row_undiscounted[OF h, of "\<lambda>a. []"] h show ?thesis by simp
qed

text \<open>
  Claim C10. Two parameter values that agree on everything but \<open>acquisitionCost\<close>
  give the same rows and the same \<open>totalPV\<close>: of the three results, only \<open>clv\<close>
  can depend on the acquisition cost.
\<close>

theorem acquisitionCost_noninterference:
  assumes "margin (data st1) = margin (data st2)"
    and "repeatProbabilities (data st1) = repeatProbabilities (data st2)"
    and "discountRate (data st1) = discountRate (data st2)"
    and "timeHorizon (data st1) = timeHorizon (data st2)"
  shows "yearlyBreakdown (calculateCLV toStr st1) = yearlyBreakdown (calculateCLV toStr st2) \<and>
    totalPV (calculateCLV toStr st1) = totalPV (calculateCLV toStr st2)"
proof -
  have "yearRow toStr (data st1) = yearRow toStr (data st2)"
    using assms by (simp add: yearRow_def fun_eq_iff Let_def)
  then have "yearlyBreakdown (calculateCLV toStr st1) = yearlyBreakdown (calculateCLV toStr st2)"
    using assms(4) by (simp add: calculateCLV_rows)
  then show ?thesis
    by (simp add: calculateCLV_totalPV)
qed

theorem acquisitionCost_noninterference_witness:
  "acquisitionCost (data (initialState\<lparr>data := initialData\<lparr>acquisitionCost := Fin 1000\<rparr>\<rparr>))
     \<noteq> acquisitionCost (data initialState) \<and>
   yearlyBreakdown (calculateCLV (\<lambda>a. [])
       (initialState\<lparr>data := initialData\<lparr>acquisitionCost := Fin 1000\<rparr>\<rparr>)) =
     yearlyBreakdown (calculateCLV (\<lambda>a. []) initialState) \<and>
   totalPV (calculateCLV (\<lambda>a. [])
       (initialState\<lparr>data := initialData\<lparr>acquisitionCost := Fin 1000\<rparr>\<rparr>)) =
     totalPV (calculateCLV (\<lambda>a. []) initialState)"
proof -
  let ?st1 = "initialState\<lparr>data := initialData\<lparr>acquisitionCost := Fin 1000\<rparr>\<rparr>"
  have "margin (data ?st1) = margin (data initialState)"
    and "repeatProbabilities (data ?st1) = repeatProbabilities (data initialState)"
    and "discountRate (data ?st1) = discountRate (data initialState)"
    and "timeHorizon (data ?st1) = timeHorizon (data initialState)"
    by (simp_all add: initialState_def)
  from acquisitionCost_noninterference[OF this, of "\<lambda>a. []"] show ?thesis by simp
qed

section \<open>The states of the component\<close>

text \<open>
  Every state that the component reaches from its initial state through the input
  handlers has a horizon from 1 to 10, as many probability entries as the horizon
  counts, no entry that is not-a-number, and results that are those of
  \<open>calculateCLV\<close> on its parameters.
\<close>

lemma reachable_invariant:
  assumes "reachable toStr st"
  shows "1 \<le> timeHorizon (data st) \<and> timeHorizon (data st) \<le> 10 \<and>
    int (length (repeatProbabilities (data st))) = timeHorizon (data st) \<and>
    NaN \<notin> set (repeatProbabilities (data st)) \<and>
    calculateCLV toStr st = st"
  using assms
proof (induction rule: reachable.induct)
  case mounted
  show ?case
    by (simp add: calculateCLV_data calculateCLV_idem initialState_def initialData_def)
next
  case (event st e st')
  from event.hyps(2) obtain st1 where h: "handle e st = Some st1"
    and st': "st' = calculateCLV toStr st1"
    by (auto simp: dispatch_def)
  have "1 \<le> timeHorizon (data st1) \<and> timeHorizon (data st1) \<le> 10 \<and>
    int (length (repeatProbabilities (data st1))) = timeHorizon (data st1) \<and>
    NaN \<notin> set (repeatProbabilities (data st1))"
  proof (cases e)
    case (ProbabilityInput index x)
    with h event.IH have eq: "data st1 = (data st)\<lparr>repeatProbabilities :=
        (repeatProbabilities (data st))[index := orZero x]\<rparr>"
      by (auto simp: updateRepeatProbability_def Let_def split: if_splits)
    have "set ((repeatProbabilities (data st))[index := orZero x])
        \<subseteq> insert (orZero x) (set (repeatProbabilities (data st)))"
      by (rule set_update_subset_insert)
    with event.IH orZero_not_NaN[of x] have "NaN \<notin> set ((repeatProbabilities (data st))[index := orZero x])"
      by auto
    with event.IH eq show ?thesis by simp
  next
    case RemoveYearClick
    with h event.IH show ?thesis
      by (auto simp: removeYear_def Let_def dest: in_set_butlastD split: if_splits)
  next
    case AddYearClick
    with h event.IH show ?thesis
      by (auto simp: addYear_def Let_def split: if_splits)
  qed (use h event.IH in auto)
  then show ?case
    by (simp add: st' calculateCLV_data calculateCLV_idem)
qed

lemma reachable_update_defined:
  assumes "reachable toStr st" and "int index < timeHorizon (data st)"
  shows "\<exists>st'. dispatch toStr (ProbabilityInput index x) st = Some st'"
  using reachable_invariant[OF assms(1)] assms(2)
  by (simp add: dispatch_def updateRepeatProbability_def Let_def)

text \<open>The discount rate -100 is one that the rate field accepts.\<close>

lemma calculateCLV_cong:
  "data st1 = data st2 \<Longrightarrow> calculateCLV toStr st1 = calculateCLV toStr st2"
  by (cases st1; cases st2) (simp add: calculateCLV_def split: prod.splits)

lemma degenerate_reachable:
  "reachable toStr
     (calculateCLV toStr (initialState\<lparr>data := initialData\<lparr>discountRate := Fin (- 100)\<rparr>\<rparr>))"
proof -
  have "dispatch toStr (DiscountRateInput (Fin (- 100))) (calculateCLV toStr initialState) =
      Some (calculateCLV toStr (initialState\<lparr>data := initialData\<lparr>discountRate := Fin (- 100)\<rparr>\<rparr>))"
    by (simp add: dispatch_def orZero_def calculateCLV_data initialState_def
        calculateCLV_cong[of "_\<lparr>data := _\<rparr>" "\<lparr>data = _, clv = _, yearlyBreakdown = _, totalPV = _\<rparr>"])
  with reachable.mounted show ?thesis by (rule reachable.event)
qed

end
